theory Spec2Isabelle
  imports Main
begin

section \<open>JSON values as the handlers see them\<close>

text \<open>
  \<^verbatim>\<open>server.js\<close> parses every request body with \<^verbatim>\<open>express.json()\<close> and hands
  JavaScript objects to the data-store client, which serialises them as JSON again.
  A value is therefore a JSON value; numbers are modelled as integers. An object is an
  association list read with \<open>map_of\<close>. Reading a property that is absent gives
  JavaScript's \<^verbatim>\<open>undefined\<close>, which is not a JSON value: a variable bound by
  destructuring (\<^verbatim>\<open>const { profile, content } = req.body\<close>) is a
  \<open>jsval option\<close>, with \<open>None\<close> for \<^verbatim>\<open>undefined\<close>.
\<close>

datatype jsval =
    JNull
  | JBool bool
  | JNum int
  | JStr string
  | JArr "jsval list"
  | JObj "(string \<times> jsval) list"

type_synonym obj = "(string \<times> jsval) list"

definition get_prop :: "obj \<Rightarrow> string \<Rightarrow> jsval option" where
  "get_prop ob k = map_of ob k"

fun get_member :: "jsval \<Rightarrow> string \<Rightarrow> jsval option" where
  "get_member (JObj ob) k = get_prop ob k"
| "get_member _ k = None"

text \<open>
  An object literal such as \<^verbatim>\<open>{ date, notes }\<close> may bind a key to
  \<^verbatim>\<open>undefined\<close>; \<^verbatim>\<open>JSON.stringify\<close> leaves such keys out.
\<close>

fun json_object :: "(string \<times> jsval option) list \<Rightarrow> obj" where
  "json_object [] = []"
| "json_object ((k, None) # kvs) = json_object kvs"
| "json_object ((k, Some v) # kvs) = (k, v) # json_object kvs"

text \<open>JavaScript truthiness, as used by \<^verbatim>\<open>!x\<close>, \<^verbatim>\<open>if (x)\<close> and \<^verbatim>\<open>x || d\<close>.\<close>

fun truthy :: "jsval option \<Rightarrow> bool" where
  "truthy None = False"
| "truthy (Some JNull) = False"
| "truthy (Some (JBool b)) = b"
| "truthy (Some (JNum n)) = (n \<noteq> 0)"
| "truthy (Some (JStr s)) = (s \<noteq> [])"
| "truthy (Some (JArr vs)) = True"
| "truthy (Some (JObj ob)) = True"

definition js_or :: "jsval option \<Rightarrow> jsval \<Rightarrow> jsval option" where
  "js_or a d = (if truthy a then a else Some d)"

subsection \<open>Conversion to text\<close>

definition digit_char :: "nat \<Rightarrow> char" where
  "digit_char d = ''0123456789'' ! d"

fun show_nat :: "nat \<Rightarrow> string" where
  "show_nat n = (if n < 10 then [digit_char n] else show_nat (n div 10) @ [digit_char (n mod 10)])"

declare show_nat.simps [simp del]

definition show_int :: "int \<Rightarrow> string" where
  "show_int i = (if i < 0 then CHR ''-'' # show_nat (nat (- i)) else show_nat (nat i))"

fun join_comma :: "string list \<Rightarrow> string" where
  "join_comma [] = []"
| "join_comma [s] = s"
| "join_comma (s # t # ss) = s @ CHR '','' # join_comma (t # ss)"

text \<open>
  \<^verbatim>\<open>String(v)\<close>, which template literals (\<^verbatim>\<open>`${profile}/certificates/...`\<close>) and the
  client's filter builders apply to their arguments.
\<close>

fun js_string :: "jsval option \<Rightarrow> string" where
  "js_string None = ''undefined''"
| "js_string (Some JNull) = ''null''"
| "js_string (Some (JBool b)) = (if b then ''true'' else ''false'')"
| "js_string (Some (JNum n)) = show_int n"
| "js_string (Some (JStr s)) = s"
| "js_string (Some (JArr vs)) =
     join_comma (map (\<lambda>v. if v = JNull then [] else js_string (Some v)) vs)"
| "js_string (Some (JObj ob)) = ''[object Object]''"

section \<open>The data store and the object store\<close>

text \<open>
  The handlers talk to a hosted database and object store through a client library;
  neither is part of the repository. What follows is the contract the handlers rely on.

  Every call of the client resolves to \<^verbatim>\<open>{ data, error }\<close>: either an error
  object with a \<^verbatim>\<open>code\<close> and a \<^verbatim>\<open>message\<close> (and \<^verbatim>\<open>data\<close> null), or the data
  (and \<^verbatim>\<open>error\<close> null). The client returns failures, it does not throw them.
\<close>

record store_error =
  code :: string
  message :: string

type_synonym store_result = "store_error + jsval"

datatype query_filter =
    Eq string string
  | In string "string list"
  | Gte string string
  | Lte string string

text \<open>
  One constructor per shape of call that \<^verbatim>\<open>server.js\<close> builds:
  \<^item> \<open>Select t cols fs ord single\<close> is
    \<^verbatim>\<open>from(t).select(cols)\<close> followed by the filters \<open>fs\<close>, an optional
    \<^verbatim>\<open>.order(col, { ascending })\<close> and, when \<open>single\<close>, \<^verbatim>\<open>.single()\<close>;
  \<^item> \<open>Insert t row\<close> is \<^verbatim>\<open>from(t).insert(row).select().single()\<close>;
  \<^item> \<open>Update t fields fs\<close> is \<^verbatim>\<open>from(t).update(fields)\<close>, the filters, then
    \<^verbatim>\<open>.select().single()\<close>;
  \<^item> \<open>Delete t fs\<close> is \<^verbatim>\<open>from(t).delete()\<close> and the filters;
  \<^item> \<open>Upload b path bytes ctype upsert\<close> is
    \<^verbatim>\<open>storage.from(b).upload(path, bytes, { contentType, upsert })\<close>.
\<close>

datatype call =
    Select string string "query_filter list" "(string \<times> bool) option" bool
  | Insert string obj
  | Update string obj "query_filter list"
  | Delete string "query_filter list"
  | Upload string string "nat list" string bool

record store =
  tables :: "string \<Rightarrow> obj list"
  buckets :: "string \<Rightarrow> (string \<times> nat list) list"
  next_id :: nat

text \<open>
  What a request finds around it: the two clock readings the handlers take
  (\<^verbatim>\<open>Date.now()\<close> and \<^verbatim>\<open>new Date().toISOString()\<close>), the runtime's
  \<^verbatim>\<open>Buffer.from(x, "base64")\<close> (which throws on some arguments: \<open>Inl\<close> carries the
  message), the object store's \<^verbatim>\<open>getPublicUrl\<close>, the timestamp the database gives to a
  new row and the order the database puts on the text of column values.
\<close>

record env =
  date_now :: nat
  iso_now :: string
  buffer_from :: "jsval option \<Rightarrow> string + nat list"
  public_url :: "string \<Rightarrow> string \<Rightarrow> string"
  db_now :: string
  pg_le :: "string \<Rightarrow> string \<Rightarrow> bool"

text \<open>The text of a column value, as filters compare it; SQL NULL has none.\<close>

fun pg_text :: "jsval option \<Rightarrow> string option" where
  "pg_text None = None"
| "pg_text (Some JNull) = None"
| "pg_text (Some v) = Some (js_string (Some v))"

fun matches :: "env \<Rightarrow> query_filter \<Rightarrow> obj \<Rightarrow> bool" where
  "matches ev (Eq c v) r = (pg_text (get_prop r c) = Some v)"
| "matches ev (In c vs) r =
     (case pg_text (get_prop r c) of None \<Rightarrow> False | Some t \<Rightarrow> t \<in> set vs)"
| "matches ev (Gte c v) r =
     (case pg_text (get_prop r c) of None \<Rightarrow> False | Some t \<Rightarrow> pg_le ev v t)"
| "matches ev (Lte c v) r =
     (case pg_text (get_prop r c) of None \<Rightarrow> False | Some t \<Rightarrow> pg_le ev t v)"

definition matches_all :: "env \<Rightarrow> query_filter list \<Rightarrow> obj \<Rightarrow> bool" where
  "matches_all ev fs r = list_all (\<lambda>f. matches ev f r) fs"

text \<open>Ordering of a result: NULL sorts last ascending and first descending.\<close>

definition key_le :: "env \<Rightarrow> string \<Rightarrow> bool \<Rightarrow> obj \<Rightarrow> obj \<Rightarrow> bool" where
  "key_le ev c asc a b =
     (let ka = pg_text (get_prop (if asc then a else b) c);
          kb = pg_text (get_prop (if asc then b else a) c)
      in case kb of None \<Rightarrow> True
         | Some y \<Rightarrow> (case ka of None \<Rightarrow> False | Some x \<Rightarrow> pg_le ev x y))"

fun insert_row :: "(obj \<Rightarrow> obj \<Rightarrow> bool) \<Rightarrow> obj \<Rightarrow> obj list \<Rightarrow> obj list" where
  "insert_row le r [] = [r]"
| "insert_row le r (x # xs) = (if le r x then r # x # xs else x # insert_row le r xs)"

definition order_rows :: "env \<Rightarrow> (string \<times> bool) option \<Rightarrow> obj list \<Rightarrow> obj list" where
  "order_rows ev ord rs =
     (case ord of None \<Rightarrow> rs
      | Some (c, asc) \<Rightarrow> foldr (insert_row (key_le ev c asc)) rs [])"

definition project :: "string \<Rightarrow> obj \<Rightarrow> obj" where
  "project cols r =
     (if cols = ''*'' then r
      else [(cols, case get_prop r cols of None \<Rightarrow> JNull | Some v \<Rightarrow> v)])"

text \<open>
  \<^verbatim>\<open>.single()\<close> asks for exactly one row; with none or several the store answers with
  the error code \<^verbatim>\<open>PGRST116\<close> and, for an update, changes nothing.
\<close>

definition no_rows :: store_error where
  "no_rows = \<lparr>code = ''PGRST116'',
              message = ''JSON object requested, multiple (or no) rows returned''\<rparr>"

definition already_exists :: store_error where
  "already_exists = \<lparr>code = ''409'', message = ''The resource already exists''\<rparr>"

text \<open>An update overrides the fields it names and leaves the others.\<close>

definition merge :: "obj \<Rightarrow> obj \<Rightarrow> obj" where
  "merge r u =
     map (\<lambda>(k, v). (k, case map_of u k of None \<Rightarrow> v | Some v' \<Rightarrow> v')) r
     @ filter (\<lambda>(k, v). map_of r k = None) u"

text \<open>
  Modelled from the spec: the database schema is not in the repository. The spec gives
  every resource the shape \<^verbatim>\<open>{id, ...domain fields, created_at}\<close> with a
  server-assigned id and creation timestamp; a new row gets both unless the inserted
  object already carries them.
\<close>

definition new_row :: "env \<Rightarrow> store \<Rightarrow> obj \<Rightarrow> obj" where
  "new_row ev s payload =
     payload @ json_object
       [(''id'', if get_prop payload ''id'' = None
                 then Some (JNum (int (next_id s))) else None),
        (''created_at'', if get_prop payload ''created_at'' = None
                 then Some (JStr (db_now ev)) else None)]"

text \<open>
  Modelled from the spec: what each call does to the stored rows and objects when the
  backend serves it. A select reads, an insert appends one row and returns it, an update
  rewrites the one matching row and returns it, a delete removes every matching row and
  returns nothing, an upload that may not overwrite fails on an occupied path.
\<close>

fun perform :: "env \<Rightarrow> call \<Rightarrow> store \<Rightarrow> store_result \<times> store" where
  "perform ev (Select t cols fs ord single) s =
     (let rs = map (project cols) (order_rows ev ord (filter (matches_all ev fs) (tables s t)))
      in if single
         then (case rs of [r] \<Rightarrow> (Inr (JObj r), s) | _ \<Rightarrow> (Inl no_rows, s))
         else (Inr (JArr (map JObj rs)), s))"
| "perform ev (Insert t payload) s =
     (let r = new_row ev s payload
      in (Inr (JObj r),
          s\<lparr>tables := (tables s)(t := tables s t @ [r]), next_id := Suc (next_id s)\<rparr>))"
| "perform ev (Update t u fs) s =
     (case filter (matches_all ev fs) (tables s t) of
        [r] \<Rightarrow>
          (Inr (JObj (merge r u)),
           s\<lparr>tables := (tables s)
                (t := map (\<lambda>x. if matches_all ev fs x then merge x u else x) (tables s t))\<rparr>)
      | _ \<Rightarrow> (Inl no_rows, s))"
| "perform ev (Delete t fs) s =
     (Inr JNull,
      s\<lparr>tables := (tables s)(t := filter (\<lambda>r. \<not> matches_all ev fs r) (tables s t))\<rparr>)"
| "perform ev (Upload b path bytes ctype upsert) s =
     (if \<not> upsert \<and> path \<in> fst ` set (buckets s b) then (Inl already_exists, s)
      else (Inr (JObj [(''path'', JStr path)]),
            s\<lparr>buckets := (buckets s)
                 (b := filter (\<lambda>p. fst p \<noteq> path) (buckets s b) @ [(path, bytes)])\<rparr>))"

text \<open>
  A handler runs against the store, the failures the backend will answer its calls with
  (one entry per call, in order; \<open>None\<close> or no entry: the call is served) and the log of
  the calls issued so far with what each returned. A failed call changes nothing.
\<close>

record exec =
  st :: store
  pending :: "store_error option list"
  log :: "(call \<times> store_result) list"

definition start :: "store \<Rightarrow> store_error option list \<Rightarrow> exec" where
  "start s fs = \<lparr>st = s, pending = fs, log = []\<rparr>"

definition backend :: "env \<Rightarrow> call \<Rightarrow> exec \<Rightarrow> store_result \<times> exec" where
  "backend ev c x =
     (case pending x of
        Some e # fs \<Rightarrow> (Inl e, x\<lparr>pending := fs, log := log x @ [(c, Inl e)]\<rparr>)
      | _ \<Rightarrow>
        (let (r, s') = perform ev c (st x)
         in (r, x\<lparr>st := s', pending := tl (pending x), log := log x @ [(c, r)]\<rparr>)))"

section \<open>Requests, responses and the shared handler shapes\<close>

record request =
  params :: obj
  query :: obj
  body :: obj

record response =
  status :: nat
  json :: obj

text \<open>The three envelopes every handler writes out in full.\<close>

definition ok :: "jsval \<Rightarrow> response" where
  "ok d = \<lparr>status = 200,
           json = [(''success'', JBool True), (''data'', d), (''error'', JNull)]\<rparr>"

definition bad_request :: "string \<Rightarrow> response" where
  "bad_request msg = \<lparr>status = 400,
           json = [(''success'', JBool False), (''data'', JNull), (''error'', JStr msg)]\<rparr>"

definition server_error :: "string \<Rightarrow> response" where
  "server_error msg = \<lparr>status = 500,
           json = [(''success'', JBool False), (''data'', JNull), (''error'', JStr msg)]\<rparr>"

text \<open>
  The tail shared by most handlers:
  \<^verbatim>\<open>if (error) throw error; res.json({ success: true, data: data, error: null })\<close>
  inside \<^verbatim>\<open>try\<close>, with \<^verbatim>\<open>catch (err)\<close> answering 500 and \<^verbatim>\<open>err.message\<close>.
\<close>

fun respond :: "store_result \<times> exec \<Rightarrow> response \<times> exec" where
  "respond (Inl err, x) = (server_error (message err), x)"
| "respond (Inr d, x) = (ok d, x)"

text \<open>\<^verbatim>\<open>GET /<resource>\<close> without a filter.\<close>

definition list_all_rows :: "env \<Rightarrow> string \<Rightarrow> string \<Rightarrow> bool \<Rightarrow> request \<Rightarrow> exec \<Rightarrow> response \<times> exec" where
  "list_all_rows ev table col asc req x =
     respond (backend ev (Select table ''*'' [] (Some (col, asc)) False) x)"

text \<open>\<^verbatim>\<open>GET /<resource>?profile=...\<close>.\<close>

definition list_by_profile :: "env \<Rightarrow> string \<Rightarrow> string \<Rightarrow> bool \<Rightarrow> request \<Rightarrow> exec \<Rightarrow> response \<times> exec" where
  "list_by_profile ev table col asc req x =
     (let profile = get_prop (query req) ''profile''
      in if \<not> truthy profile then (bad_request ''Profile parameter is required'', x)
         else respond (backend ev
                (Select table ''*'' [Eq ''profile'' (js_string profile)] (Some (col, asc)) False) x))"

text \<open>
  \<^verbatim>\<open>POST /<resource>\<close>: \<open>required\<close> are the fields tested with \<^verbatim>\<open>!field\<close>,
  \<open>msg\<close> the 400 message and \<open>literal\<close> the object literal given to \<^verbatim>\<open>insert\<close>.
\<close>

definition create :: "env \<Rightarrow> string \<Rightarrow> string list \<Rightarrow> string \<Rightarrow> (obj \<Rightarrow> (string \<times> jsval option) list) \<Rightarrow> request \<Rightarrow> exec \<Rightarrow> response \<times> exec" where
  "create ev table required msg literal req x =
     (if list_ex (\<lambda>f. \<not> truthy (get_prop (body req) f)) required then (bad_request msg, x)
      else respond (backend ev (Insert table (json_object (literal (body req)))) x))"

text \<open>\<^verbatim>\<open>PUT /<resource>/:id\<close>: \<^verbatim>\<open>update(req.body).eq("id", id).select().single()\<close>.\<close>

definition update_by_id :: "env \<Rightarrow> string \<Rightarrow> request \<Rightarrow> exec \<Rightarrow> response \<times> exec" where
  "update_by_id ev table req x =
     (let id = get_prop (params req) ''id''; updates = body req
      in respond (backend ev (Update table updates [Eq ''id'' (js_string id)]) x))"

text \<open>\<^verbatim>\<open>DELETE /<resource>/:id\<close>: answers \<^verbatim>\<open>{ id }\<close>, never the deleted row.\<close>

definition delete_by_id :: "env \<Rightarrow> string \<Rightarrow> request \<Rightarrow> exec \<Rightarrow> response \<times> exec" where
  "delete_by_id ev table req x =
     (let id = get_prop (params req) ''id''
      in case backend ev (Delete table [Eq ''id'' (js_string id)]) x of
           (Inl err, x') \<Rightarrow> (server_error (message err), x')
         | (Inr d, x') \<Rightarrow> (ok (JObj (json_object [(''id'', id)])), x'))"

text \<open>\<^verbatim>\<open>GET /daily-logs/<person>/:date\<close>: the no-row code becomes success with null.\<close>

definition get_by_date :: "env \<Rightarrow> string \<Rightarrow> request \<Rightarrow> exec \<Rightarrow> response \<times> exec" where
  "get_by_date ev table req x =
     (let date = get_prop (params req) ''date''
      in case backend ev (Select table ''*'' [Eq ''date'' (js_string date)] None True) x of
           (Inl err, x') \<Rightarrow>
             if code err = ''PGRST116'' then (ok JNull, x')
             else (server_error (message err), x')
         | (Inr d, x') \<Rightarrow> (ok d, x'))"

section \<open>The handlers that have a shape of their own\<close>

text \<open>\<^verbatim>\<open>GET /\<close>\<close>

definition health :: "env \<Rightarrow> request \<Rightarrow> exec \<Rightarrow> response \<times> exec" where
  "health ev req x =
     (\<lparr>status = 200,
       json = [(''success'', JBool True),
               (''message'', JStr ''Internship Preparation Tracker API''),
               (''timestamp'', JStr (iso_now ev))]\<rparr>, x)"

text \<open>
  \<^verbatim>\<open>DELETE /habits/:id\<close>: the result of the first delete is awaited and dropped; only
  the second call's error is looked at.
\<close>

definition delete_habit :: "env \<Rightarrow> request \<Rightarrow> exec \<Rightarrow> response \<times> exec" where
  "delete_habit ev req x =
     (let id = get_prop (params req) ''id'';
          (_, x1) = backend ev (Delete ''habit_entries'' [Eq ''habit_id'' (js_string id)]) x
      in case backend ev (Delete ''habits'' [Eq ''id'' (js_string id)]) x1 of
           (Inl err, x2) \<Rightarrow> (server_error (message err), x2)
         | (Inr d, x2) \<Rightarrow> (ok (JObj (json_object [(''id'', id)])), x2))"

text \<open>
  \<^verbatim>\<open>GET /habit-entries?profile=&from=&to=\<close>: the habits of the profile first, then
  their entries. \<^verbatim>\<open>habits.map\<close> on anything but an array throws inside \<^verbatim>\<open>try\<close>;
  a select without \<^verbatim>\<open>.single()\<close> answers with an array, so the branch is there for
  totality only.
\<close>

definition get_habit_entries :: "env \<Rightarrow> request \<Rightarrow> exec \<Rightarrow> response \<times> exec" where
  "get_habit_entries ev req x =
     (let profile = get_prop (query req) ''profile'';
          from = get_prop (query req) ''from'';
          to = get_prop (query req) ''to''
      in if \<not> truthy profile then (bad_request ''Profile parameter is required'', x)
         else case backend ev
                (Select ''habits'' ''id'' [Eq ''profile'' (js_string profile)] None False) x of
           (Inl habitsError, x1) \<Rightarrow> (server_error (message habitsError), x1)
         | (Inr (JArr habits), x1) \<Rightarrow>
             (let habitIds = map (\<lambda>h. get_member h ''id'') habits
              in if length habitIds = 0 then (ok (JArr []), x1)
                 else respond (backend ev
                   (Select ''habit_entries'' ''*''
                      ([In ''habit_id'' (map js_string habitIds)]
                       @ (if truthy from then [Gte ''date'' (js_string from)] else [])
                       @ (if truthy to then [Lte ''date'' (js_string to)] else []))
                      (Some (''date'', False)) False) x1))
         | (Inr _, x1) \<Rightarrow> (server_error ''habits.map is not a function'', x1))"

text \<open>
  \<^verbatim>\<open>PUT /cp-ratings/:platform\<close>: only \<^verbatim>\<open>data\<close> of the lookup is bound
  (\<^verbatim>\<open>const { data: existing } = ...\<close>), so a lookup that failed reads as no row.
\<close>

definition put_cp_rating :: "env \<Rightarrow> request \<Rightarrow> exec \<Rightarrow> response \<times> exec" where
  "put_cp_rating ev req x =
     (let platform = get_prop (params req) ''platform'';
          rating = get_prop (body req) ''rating''
      in if rating = None then (bad_request ''Rating is required'', x)
         else
           (let (looked, x1) = backend ev
                  (Select ''cp_ratings'' ''*'' [Eq ''platform'' (js_string platform)] None True) x;
                existing = (case looked of Inl _ \<Rightarrow> JNull | Inr d \<Rightarrow> d)
            in if truthy (Some existing)
               then respond (backend ev
                      (Update ''cp_ratings''
                         (json_object [(''rating'', rating), (''updated_at'', Some (JStr (iso_now ev)))])
                         [Eq ''platform'' (js_string platform)]) x1)
               else respond (backend ev
                      (Insert ''cp_ratings''
                         (json_object [(''platform'', platform), (''rating'', rating)])) x1)))"

text \<open>\<^verbatim>\<open>GET /a2z-progress\<close>: creates the row of zero counters when the lookup finds none.\<close>

definition get_a2z_progress :: "env \<Rightarrow> request \<Rightarrow> exec \<Rightarrow> response \<times> exec" where
  "get_a2z_progress ev req x =
     (case backend ev (Select ''a2z_progress'' ''*'' [] None True) x of
        (Inl err, x1) \<Rightarrow>
          if code err = ''PGRST116''
          then (case backend ev
                  (Insert ''a2z_progress''
                     (json_object
                        [(''easy_total'', Some (JNum 0)), (''easy_solved'', Some (JNum 0)),
                         (''medium_total'', Some (JNum 0)), (''medium_solved'', Some (JNum 0)),
                         (''hard_total'', Some (JNum 0)), (''hard_solved'', Some (JNum 0))])) x1 of
                  (Inl insertError, x2) \<Rightarrow> (server_error (message insertError), x2)
                | (Inr newData, x2) \<Rightarrow> (ok newData, x2))
          else (server_error (message err), x1)
      | (Inr d, x1) \<Rightarrow> (ok d, x1))"

text \<open>\<^verbatim>\<open>PUT /a2z-progress\<close>\<close>

definition put_a2z_progress :: "env \<Rightarrow> request \<Rightarrow> exec \<Rightarrow> response \<times> exec" where
  "put_a2z_progress ev req x =
     (let updates = body req;
          (looked, x1) = backend ev (Select ''a2z_progress'' ''*'' [] None True) x;
          existing = (case looked of Inl _ \<Rightarrow> JNull | Inr d \<Rightarrow> d)
      in if \<not> truthy (Some existing)
         then respond (backend ev (Insert ''a2z_progress'' updates) x1)
         else respond (backend ev
                (Update ''a2z_progress'' updates
                   [Eq ''id'' (js_string (get_member existing ''id''))]) x1))"

text \<open>
  \<^verbatim>\<open>POST /upload/certificate\<close> and \<^verbatim>\<open>POST /upload/case-competition-doc\<close>: the path
  is a template literal over the millisecond clock and the file name, the content type is
  fixed and \<^verbatim>\<open>upsert\<close> is false.
\<close>

definition upload_certificate :: "env \<Rightarrow> request \<Rightarrow> exec \<Rightarrow> response \<times> exec" where
  "upload_certificate ev req x =
     (let fileName = get_prop (body req) ''fileName'';
          fileBase64 = get_prop (body req) ''fileBase64'';
          profile = get_prop (body req) ''profile''
      in if \<not> truthy fileName \<or> \<not> truthy fileBase64 \<or> \<not> truthy profile
         then (bad_request ''fileName, fileBase64, and profile are required'', x)
         else case buffer_from ev fileBase64 of
           Inl msg \<Rightarrow> (server_error msg, x)
         | Inr fileBuffer \<Rightarrow>
             (let timestamp = date_now ev;
                  uniqueFileName = js_string profile @ ''/certificates/''
                                   @ show_nat timestamp @ ''-'' @ js_string fileName
              in case backend ev
                    (Upload ''certificates'' uniqueFileName fileBuffer ''application/pdf'' False) x of
                   (Inl err, x') \<Rightarrow> (server_error (message err), x')
                 | (Inr d, x') \<Rightarrow>
                     (ok (JObj (json_object
                        [(''file_url'', Some (JStr (public_url ev ''certificates'' uniqueFileName))),
                         (''path'', get_member d ''path'')])), x')))"

definition upload_case_competition_doc :: "env \<Rightarrow> request \<Rightarrow> exec \<Rightarrow> response \<times> exec" where
  "upload_case_competition_doc ev req x =
     (let fileName = get_prop (body req) ''fileName'';
          fileBase64 = get_prop (body req) ''fileBase64''
      in if \<not> truthy fileName \<or> \<not> truthy fileBase64
         then (bad_request ''fileName and fileBase64 are required'', x)
         else case buffer_from ev fileBase64 of
           Inl msg \<Rightarrow> (server_error msg, x)
         | Inr fileBuffer \<Rightarrow>
             (let timestamp = date_now ev;
                  uniqueFileName = ''case-competitions/'' @ show_nat timestamp
                                   @ ''-'' @ js_string fileName
              in case backend ev
                    (Upload ''documents'' uniqueFileName fileBuffer ''application/pdf'' False) x of
                   (Inl err, x') \<Rightarrow> (server_error (message err), x')
                 | (Inr d, x') \<Rightarrow>
                     (ok (JObj (json_object
                        [(''file_url'', Some (JStr (public_url ev ''documents'' uniqueFileName))),
                         (''path'', get_member d ''path'')])), x')))"

section \<open>The routes\<close>

text \<open>Shorthand properties of an object literal: \<^verbatim>\<open>{ name }\<close> and \<^verbatim>\<open>{ name: name || d }\<close>.\<close>

definition pick :: "obj \<Rightarrow> string \<Rightarrow> string \<times> jsval option" where
  "pick b k = (k, get_prop b k)"

definition pick_or :: "obj \<Rightarrow> string \<Rightarrow> jsval \<Rightarrow> string \<times> jsval option" where
  "pick_or b k d = (k, js_or (get_prop b k) d)"

datatype endpoint =
    Health
  | GetTodos | PostTodos | PutTodos | DeleteTodos
  | GetHabits | PostHabits | PutHabits | DeleteHabits
  | GetHabitEntries | PostHabitEntries | PutHabitEntries
  | GetDailyLogsPiyush | GetDailyLogPiyushByDate | PostDailyLogsPiyush
  | PutDailyLogsPiyush | DeleteDailyLogsPiyush
  | GetDailyLogsShruti | GetDailyLogShrutiByDate | PostDailyLogsShruti
  | PutDailyLogsShruti | DeleteDailyLogsShruti
  | GetCpRatings | PutCpRatings
  | GetContestLogs | PostContestLogs | PutContestLogs | DeleteContestLogs
  | GetA2zProgress | PutA2zProgress
  | GetBlind75 | PostBlind75 | PutBlind75 | DeleteBlind75
  | GetCourses | PostCourses | PutCourses | DeleteCourses
  | GetCertificates | PostCertificates | DeleteCertificates
  | GetResumeSections | PutResumeSections
  | GetProjects | PostProjects | PutProjects | DeleteProjects
  | GetSkills | PostSkills | PutSkills | DeleteSkills
  | GetCaseStudies | PostCaseStudies | PutCaseStudies | DeleteCaseStudies
  | GetGuesstimates | PostGuesstimates | PutGuesstimates | DeleteGuesstimates
  | GetCaseCompetitions | PostCaseCompetitions | PutCaseCompetitions | DeleteCaseCompetitions
  | UploadCertificate | UploadCaseCompetitionDoc

fun handle :: "env \<Rightarrow> endpoint \<Rightarrow> request \<Rightarrow> exec \<Rightarrow> response \<times> exec" where
  "handle ev Health = health ev"
| "handle ev GetTodos = list_by_profile ev ''todos'' ''created_at'' False"
| "handle ev PostTodos =
     create ev ''todos'' [''profile'', ''content''] ''Profile and content are required''
       (\<lambda>b. [pick b ''profile'', pick b ''content''])"
| "handle ev PutTodos = update_by_id ev ''todos''"
| "handle ev DeleteTodos = delete_by_id ev ''todos''"
| "handle ev GetHabits = list_by_profile ev ''habits'' ''sort_order'' True"
| "handle ev PostHabits =
     create ev ''habits'' [''profile'', ''name''] ''Profile and name are required''
       (\<lambda>b. [pick b ''profile'', pick b ''name'', pick_or b ''sort_order'' (JNum 0)])"
| "handle ev PutHabits = update_by_id ev ''habits''"
| "handle ev DeleteHabits = delete_habit ev"
| "handle ev GetHabitEntries = get_habit_entries ev"
| "handle ev PostHabitEntries =
     create ev ''habit_entries'' [''habit_id'', ''date''] ''habit_id and date are required''
       (\<lambda>b. [pick b ''habit_id'', pick b ''date'', pick_or b ''completed'' (JBool False)])"
| "handle ev PutHabitEntries = update_by_id ev ''habit_entries''"
| "handle ev GetDailyLogsPiyush = list_all_rows ev ''daily_logs_piyush'' ''date'' False"
| "handle ev GetDailyLogPiyushByDate = get_by_date ev ''daily_logs_piyush''"
| "handle ev PostDailyLogsPiyush =
     create ev ''daily_logs_piyush'' [''date''] ''Date is required''
       (\<lambda>b. [pick b ''date'', pick_or b ''dsa_questions_solved'' (JNum 0), pick b ''notes''])"
| "handle ev PutDailyLogsPiyush = update_by_id ev ''daily_logs_piyush''"
| "handle ev DeleteDailyLogsPiyush = delete_by_id ev ''daily_logs_piyush''"
| "handle ev GetDailyLogsShruti = list_all_rows ev ''daily_logs_shruti'' ''date'' False"
| "handle ev GetDailyLogShrutiByDate = get_by_date ev ''daily_logs_shruti''"
| "handle ev PostDailyLogsShruti =
     create ev ''daily_logs_shruti'' [''date''] ''Date is required''
       (\<lambda>b. [pick b ''date'', pick_or b ''python_questions_solved'' (JNum 0),
             pick_or b ''sql_questions_solved'' (JNum 0), pick b ''notes''])"
| "handle ev PutDailyLogsShruti = update_by_id ev ''daily_logs_shruti''"
| "handle ev DeleteDailyLogsShruti = delete_by_id ev ''daily_logs_shruti''"
| "handle ev GetCpRatings = list_all_rows ev ''cp_ratings'' ''platform'' True"
| "handle ev PutCpRatings = put_cp_rating ev"
| "handle ev GetContestLogs = list_all_rows ev ''contest_logs'' ''date'' False"
| "handle ev PostContestLogs =
     create ev ''contest_logs'' [''platform'', ''contest_name'', ''date'']
       ''Platform, contest_name, and date are required''
       (\<lambda>b. [pick b ''platform'', pick b ''contest_name'', pick b ''date'',
             pick_or b ''problems_solved'' (JNum 0), pick_or b ''total_problems'' (JNum 0),
             pick b ''notes''])"
| "handle ev PutContestLogs = update_by_id ev ''contest_logs''"
| "handle ev DeleteContestLogs = delete_by_id ev ''contest_logs''"
| "handle ev GetA2zProgress = get_a2z_progress ev"
| "handle ev PutA2zProgress = put_a2z_progress ev"
| "handle ev GetBlind75 = list_all_rows ev ''blind75'' ''question_name'' True"
| "handle ev PostBlind75 =
     create ev ''blind75'' [''question_name''] ''Question name is required''
       (\<lambda>b. [pick b ''question_name'', pick b ''solution_link'',
             pick_or b ''completed'' (JBool False)])"
| "handle ev PutBlind75 = update_by_id ev ''blind75''"
| "handle ev DeleteBlind75 = delete_by_id ev ''blind75''"
| "handle ev GetCourses = list_by_profile ev ''courses'' ''course_name'' True"
| "handle ev PostCourses =
     create ev ''courses'' [''profile'', ''course_name'', ''platform'']
       ''Profile, course_name, and platform are required''
       (\<lambda>b. [pick b ''profile'', pick b ''course_name'', pick b ''platform'',
             pick_or b ''total_content'' (JNum 100), pick_or b ''completed_content'' (JNum 0)])"
| "handle ev PutCourses = update_by_id ev ''courses''"
| "handle ev DeleteCourses = delete_by_id ev ''courses''"
| "handle ev GetCertificates = list_by_profile ev ''certificates'' ''date'' False"
| "handle ev PostCertificates =
     create ev ''certificates'' [''profile'', ''title'', ''issuer'', ''date'']
       ''Profile, title, issuer, and date are required''
       (\<lambda>b. [pick b ''profile'', pick b ''title'', pick b ''issuer'', pick b ''date'',
             pick b ''file_url''])"
| "handle ev DeleteCertificates = delete_by_id ev ''certificates''"
| "handle ev GetResumeSections = list_all_rows ev ''resume_sections'' ''sort_order'' True"
| "handle ev PutResumeSections = update_by_id ev ''resume_sections''"
| "handle ev GetProjects = list_by_profile ev ''projects'' ''project_name'' True"
| "handle ev PostProjects =
     create ev ''projects'' [''profile'', ''project_name'']
       ''Profile and project_name are required''
       (\<lambda>b. [pick b ''profile'', pick b ''project_name'', pick b ''description'',
             pick b ''notes''])"
| "handle ev PutProjects = update_by_id ev ''projects''"
| "handle ev DeleteProjects = delete_by_id ev ''projects''"
| "handle ev GetSkills = list_by_profile ev ''skills'' ''skill_name'' True"
| "handle ev PostSkills =
     create ev ''skills'' [''profile'', ''skill_name''] ''Profile and skill_name are required''
       (\<lambda>b. [pick b ''profile'', pick b ''skill_name'', pick b ''notes''])"
| "handle ev PutSkills = update_by_id ev ''skills''"
| "handle ev DeleteSkills = delete_by_id ev ''skills''"
| "handle ev GetCaseStudies = list_all_rows ev ''case_studies'' ''date'' False"
| "handle ev PostCaseStudies =
     create ev ''case_studies'' [''title'', ''date''] ''Title and date are required''
       (\<lambda>b. [pick b ''title'', pick b ''notes'', pick b ''date''])"
| "handle ev PutCaseStudies = update_by_id ev ''case_studies''"
| "handle ev DeleteCaseStudies = delete_by_id ev ''case_studies''"
| "handle ev GetGuesstimates = list_all_rows ev ''guesstimates'' ''topic'' True"
| "handle ev PostGuesstimates =
     create ev ''guesstimates'' [''topic''] ''Topic is required''
       (\<lambda>b. [pick b ''topic'', pick b ''learnings'', pick b ''notes''])"
| "handle ev PutGuesstimates = update_by_id ev ''guesstimates''"
| "handle ev DeleteGuesstimates = delete_by_id ev ''guesstimates''"
| "handle ev GetCaseCompetitions =
     list_all_rows ev ''case_competitions'' ''competition_name'' True"
| "handle ev PostCaseCompetitions =
     create ev ''case_competitions'' [''competition_name''] ''Competition name is required''
       (\<lambda>b. [pick b ''competition_name'', pick b ''notes'', pick b ''document_url''])"
| "handle ev PutCaseCompetitions = update_by_id ev ''case_competitions''"
| "handle ev DeleteCaseCompetitions = delete_by_id ev ''case_competitions''"
| "handle ev UploadCertificate = upload_certificate ev"
| "handle ev UploadCaseCompetitionDoc = upload_case_competition_doc ev"

section \<open>Running requests\<close>

text \<open>
  One request against a store \<open>s\<close>, with the failures \<open>fs\<close> the backend will answer its
  calls with. The result is the response together with the final state, whose \<open>log\<close> lists
  the calls the handler issued and what each returned.
\<close>

definition run :: "env \<Rightarrow> endpoint \<Rightarrow> request \<Rightarrow> store \<Rightarrow> store_error option list \<Rightarrow> response \<times> exec" where
  "run ev e req s fs = handle ev e req (start s fs)"

text \<open>The backend serves every call of the request.\<close>

definition all_served :: "store_error option list \<Rightarrow> bool" where
  "all_served fs = list_all (\<lambda>f. f = None) fs"

text \<open>
  A single writer: requests handled one after the other, each with its own surroundings
  and its own backend failures, each starting from the store the previous one left.
\<close>

type_synonym step = "env \<times> endpoint \<times> request \<times> store_error option list"

fun run_all :: "step list \<Rightarrow> store \<Rightarrow> store" where
  "run_all [] s = s"
| "run_all ((ev, e, req, fs) # rest) s = run_all rest (st (snd (run ev e req s fs)))"

section \<open>The routes by kind\<close>

text \<open>
  The routes that share a handler shape, each with its table; for the create routes also
  the fields the handler tests with \<^verbatim>\<open>!field\<close>.
\<close>

definition create_routes :: "(endpoint \<times> string \<times> string list) list" where
  "create_routes =
     [(PostTodos, ''todos'', [''profile'', ''content'']),
      (PostHabits, ''habits'', [''profile'', ''name'']),
      (PostHabitEntries, ''habit_entries'', [''habit_id'', ''date'']),
      (PostDailyLogsPiyush, ''daily_logs_piyush'', [''date'']),
      (PostDailyLogsShruti, ''daily_logs_shruti'', [''date'']),
      (PostContestLogs, ''contest_logs'', [''platform'', ''contest_name'', ''date'']),
      (PostBlind75, ''blind75'', [''question_name'']),
      (PostCourses, ''courses'', [''profile'', ''course_name'', ''platform'']),
      (PostCertificates, ''certificates'', [''profile'', ''title'', ''issuer'', ''date'']),
      (PostProjects, ''projects'', [''profile'', ''project_name'']),
      (PostSkills, ''skills'', [''profile'', ''skill_name'']),
      (PostCaseStudies, ''case_studies'', [''title'', ''date'']),
      (PostGuesstimates, ''guesstimates'', [''topic'']),
      (PostCaseCompetitions, ''case_competitions'', [''competition_name''])]"

text \<open>
  What else a create route takes from the body: the optional fields written into the
  insert as they come, and those written \<^verbatim>\<open>field || default\<close>, each with its default.
\<close>

definition create_optionals :: "(endpoint \<times> string list \<times> (string \<times> jsval) list) list" where
  "create_optionals =
     [(PostTodos, [], []),
      (PostHabits, [], [(''sort_order'', JNum 0)]),
      (PostHabitEntries, [], [(''completed'', JBool False)]),
      (PostDailyLogsPiyush, [''notes''], [(''dsa_questions_solved'', JNum 0)]),
      (PostDailyLogsShruti, [''notes''],
         [(''python_questions_solved'', JNum 0), (''sql_questions_solved'', JNum 0)]),
      (PostContestLogs, [''notes''],
         [(''problems_solved'', JNum 0), (''total_problems'', JNum 0)]),
      (PostBlind75, [''solution_link''], [(''completed'', JBool False)]),
      (PostCourses, [], [(''total_content'', JNum 100), (''completed_content'', JNum 0)]),
      (PostCertificates, [''file_url''], []),
      (PostProjects, [''description'', ''notes''], []),
      (PostSkills, [''notes''], []),
      (PostCaseStudies, [''notes''], []),
      (PostGuesstimates, [''learnings'', ''notes''], []),
      (PostCaseCompetitions, [''notes'', ''document_url''], [])]"

definition update_routes :: "(endpoint \<times> string) list" where
  "update_routes =
     [(PutTodos, ''todos''), (PutHabits, ''habits''), (PutHabitEntries, ''habit_entries''),
      (PutDailyLogsPiyush, ''daily_logs_piyush''), (PutDailyLogsShruti, ''daily_logs_shruti''),
      (PutContestLogs, ''contest_logs''), (PutBlind75, ''blind75''), (PutCourses, ''courses''),
      (PutResumeSections, ''resume_sections''), (PutProjects, ''projects''),
      (PutSkills, ''skills''), (PutCaseStudies, ''case_studies''),
      (PutGuesstimates, ''guesstimates''), (PutCaseCompetitions, ''case_competitions'')]"

definition delete_routes :: "(endpoint \<times> string) list" where
  "delete_routes =
     [(DeleteTodos, ''todos''), (DeleteHabits, ''habits''),
      (DeleteDailyLogsPiyush, ''daily_logs_piyush''),
      (DeleteDailyLogsShruti, ''daily_logs_shruti''),
      (DeleteContestLogs, ''contest_logs''), (DeleteBlind75, ''blind75''),
      (DeleteCourses, ''courses''), (DeleteCertificates, ''certificates''),
      (DeleteProjects, ''projects''), (DeleteSkills, ''skills''),
      (DeleteCaseStudies, ''case_studies''), (DeleteGuesstimates, ''guesstimates''),
      (DeleteCaseCompetitions, ''case_competitions'')]"

definition by_date_routes :: "(endpoint \<times> string) list" where
  "by_date_routes =
     [(GetDailyLogPiyushByDate, ''daily_logs_piyush''),
      (GetDailyLogShrutiByDate, ''daily_logs_shruti'')]"

section \<open>The properties in the handlers' terms\<close>

subsection \<open>Create\<close>

text \<open>
  What a create route owes its caller. With every required field truthy the handler issues
  exactly one insert. Its payload has each field once: a required or optional field as the
  body has it (absent when the body leaves it out), a defaulted field as the body has it
  when that is truthy and as the default otherwise, and no other field. When the store
  serves the insert, the answer is the new row, appended to the table: the payload with
  the next id and the store's timestamp. With a required field missing or falsy the answer
  is a 400 and nothing reaches the store.
\<close>

definition create_contract :: "env \<Rightarrow> string \<Rightarrow> string list \<Rightarrow> string list \<Rightarrow> (string \<times> jsval) list \<Rightarrow> request \<Rightarrow> store \<Rightarrow> store_error option list \<Rightarrow> response \<times> exec \<Rightarrow> bool" where
  "create_contract ev t required optional defaulted req s fs R =
     ((list_all (\<lambda>f. truthy (get_prop (body req) f)) required \<longrightarrow>
        (\<exists>payload.
           map fst (log (snd R)) = [Insert t payload]
           \<and> distinct (map fst payload)
           \<and> (\<forall>k. get_prop payload k =
                  (if k \<in> set required \<union> set optional then get_prop (body req) k
                   else case map_of defaulted k of
                          None \<Rightarrow> None
                        | Some d \<Rightarrow> if truthy (get_prop (body req) k)
                                    then get_prop (body req) k else Some d))
           \<and> (all_served fs \<longrightarrow>
                 log (snd R) =
                   [(Insert t payload,
                     Inr (JObj (payload @ [(''id'', JNum (int (next_id s))),
                                           (''created_at'', JStr (db_now ev))])))]
                 \<and> fst R =
                     \<lparr>status = 200,
                      json = [(''success'', JBool True),
                              (''data'', JObj (payload @ [(''id'', JNum (int (next_id s))),
                                                        (''created_at'', JStr (db_now ev))])),
                              (''error'', JNull)]\<rparr>
                 \<and> tables (st (snd R)) t =
                     tables s t @ [payload @ [(''id'', JNum (int (next_id s))),
                                              (''created_at'', JStr (db_now ev))]])))
      \<and> (\<not> list_all (\<lambda>f. truthy (get_prop (body req) f)) required \<longrightarrow>
           (\<exists>msg. fst R =
                    \<lparr>status = 400,
                     json = [(''success'', JBool False), (''data'', JNull),
                             (''error'', JStr msg)]\<rparr>)
           \<and> log (snd R) = [] \<and> st (snd R) = s))"

text \<open>
  The calls \<open>cs\<close> are one insert into \<open>t\<close> whose field \<open>k\<close> is the default \<open>d\<close> when the
  caller left it out or supplied a falsy value, and the supplied value when that is truthy.
\<close>

definition inserts_with_default :: "call list \<Rightarrow> string \<Rightarrow> string \<Rightarrow> jsval option \<Rightarrow> jsval \<Rightarrow> bool" where
  "inserts_with_default cs t k supplied d =
     (\<exists>p. cs = [Insert t p]
        \<and> (supplied = None \<longrightarrow> get_prop p k = Some d)
        \<and> (truthy supplied \<longrightarrow> get_prop p k = supplied)
        \<and> (\<not> truthy supplied \<longrightarrow> get_prop p k = Some d))"

subsection \<open>Failures of the backend\<close>

text \<open>
  The calls whose \<^verbatim>\<open>error\<close> a handler never reads: the first delete of
  \<^verbatim>\<open>DELETE /habits/:id\<close> (awaited, result dropped) and the lookups of
  \<^verbatim>\<open>PUT /cp-ratings/:platform\<close> and \<^verbatim>\<open>PUT /a2z-progress\<close> (only \<^verbatim>\<open>data\<close> is bound).
  Calls are counted from 0 in the order the handler issues them.
\<close>

definition unchecked_call :: "endpoint \<Rightarrow> nat \<Rightarrow> bool" where
  "unchecked_call e i = (i = 0 \<and> e \<in> set [DeleteHabits, PutCpRatings, PutA2zProgress])"

text \<open>The lookups whose handler tests \<^verbatim>\<open>error.code === "PGRST116"\<close> before throwing.\<close>

definition no_row_lookup :: "endpoint \<Rightarrow> nat \<Rightarrow> bool" where
  "no_row_lookup e i =
     (i = 0 \<and> e \<in> set [GetDailyLogPiyushByDate, GetDailyLogShrutiByDate, GetA2zProgress])"

text \<open>
  The requests a handler turns away before it calls the backend, by the guard of each
  route: the list routes filtered by profile want a truthy \<^verbatim>\<open>profile\<close> in the query,
  the create routes want every required field truthy, the rating upsert wants
  \<^verbatim>\<open>rating !== undefined\<close>, the uploads want their fields truthy. The other routes
  have no guard.
\<close>

definition profile_routes :: "endpoint list" where
  "profile_routes =
     [GetTodos, GetHabits, GetHabitEntries, GetCourses, GetCertificates, GetProjects, GetSkills]"

definition rejects :: "endpoint \<Rightarrow> request \<Rightarrow> bool" where
  "rejects e req =
     (e \<in> set profile_routes \<and> \<not> truthy (get_prop (query req) ''profile'')
      \<or> list_ex (\<lambda>(e', t, required).
            e' = e \<and> list_ex (\<lambda>f. \<not> truthy (get_prop (body req) f)) required) create_routes
      \<or> e = PutCpRatings \<and> get_prop (body req) ''rating'' = None
      \<or> e = UploadCertificate
          \<and> list_ex (\<lambda>f. \<not> truthy (get_prop (body req) f))
                [''fileName'', ''fileBase64'', ''profile'']
      \<or> e = UploadCaseCompetitionDoc
          \<and> list_ex (\<lambda>f. \<not> truthy (get_prop (body req) f)) [''fileName'', ''fileBase64''])"

text \<open>
  How a handler treats failures, given which of its calls are unchecked, which translate
  the no-row code and whether it turns the request away: every other failed call ends the
  request with a 500 carrying the backend's message; the answer is a 400 exactly when the
  request is turned away, and then no call is issued; no call is issued twice.
\<close>

definition error_discipline :: "(nat \<Rightarrow> bool) \<Rightarrow> (nat \<Rightarrow> bool) \<Rightarrow> bool \<Rightarrow> store \<Rightarrow> response \<times> exec \<Rightarrow> bool" where
  "error_discipline unchecked translated invalid s R =
     ((\<forall>i err. i < length (log (snd R)) \<and> snd (log (snd R) ! i) = Inl err
          \<and> \<not> unchecked i \<and> \<not> (translated i \<and> code err = ''PGRST116'')
          \<longrightarrow> fst R = server_error (message err) \<and> Suc i = length (log (snd R)))
      \<and> (status (fst R) = 400) = invalid
      \<and> (invalid \<longrightarrow> (\<exists>msg. fst R = bad_request msg) \<and> log (snd R) = [] \<and> st (snd R) = s)
      \<and> distinct (map fst (log (snd R))))"

text \<open>The table a call writes to, if any.\<close>

fun writes :: "call \<Rightarrow> string option" where
  "writes (Insert t row) = Some t"
| "writes (Update t u fs) = Some t"
| "writes (Delete t fs) = Some t"
| "writes (Select t cols fs ord single) = None"
| "writes (Upload b path bytes ctype upsert) = None"

subsection \<open>Ratings and progress\<close>

text \<open>
  The platforms of the rating rows, as the lookup \<^verbatim>\<open>.eq("platform", platform)\<close> reads
  them, and the invariant that no platform has two rows.
\<close>

definition platform_keys :: "obj list \<Rightarrow> string list" where
  "platform_keys rows = List.map_filter (\<lambda>r. pg_text (get_prop r ''platform'')) rows"

definition one_row_per_platform :: "obj list \<Rightarrow> bool" where
  "one_row_per_platform rows = distinct (platform_keys rows)"

text \<open>
  The backend answers the lookup of a \<^verbatim>\<open>PUT /cp-ratings/:platform\<close>, the first call of
  that handler; nothing is asked of the other routes or of the later calls.
\<close>

fun lookup_served :: "step \<Rightarrow> bool" where
  "lookup_served (ev, e, req, Some err # fs) = (e \<noteq> PutCpRatings)"
| "lookup_served (ev, e, req, fs) = True"

text \<open>The row \<^verbatim>\<open>GET /a2z-progress\<close> inserts when it finds none.\<close>

definition zero_counters :: obj where
  "zero_counters =
     [(''easy_total'', JNum 0), (''easy_solved'', JNum 0),
      (''medium_total'', JNum 0), (''medium_solved'', JNum 0),
      (''hard_total'', JNum 0), (''hard_solved'', JNum 0)]"

subsection \<open>Uploads\<close>

text \<open>
  The storage paths in words: the namespace prefix, the millisecond timestamp, a hyphen
  and the original file name.
\<close>

definition certificate_path :: "jsval option \<Rightarrow> nat \<Rightarrow> jsval option \<Rightarrow> string" where
  "certificate_path profile t fileName =
     js_string profile @ ''/certificates/'' @ show_nat t @ ''-'' @ js_string fileName"

definition case_doc_path :: "nat \<Rightarrow> jsval option \<Rightarrow> string" where
  "case_doc_path t fileName = ''case-competitions/'' @ show_nat t @ ''-'' @ js_string fileName"

text \<open>
  What an upload of \<open>bytes\<close> to \<open>path\<close> in \<open>bucket\<close> does: one upload call, as PDF and
  without permission to overwrite; on a free path the object is stored and the answer
  carries its public URL and its path; on an occupied path the store's error comes back
  as the response and the bucket is as before.
\<close>

definition upload_contract :: "env \<Rightarrow> string \<Rightarrow> string \<Rightarrow> nat list \<Rightarrow> store \<Rightarrow> store_error option list \<Rightarrow> response \<times> exec \<Rightarrow> bool" where
  "upload_contract ev bucket path bytes s fs R =
     (map fst (log (snd R)) = [Upload bucket path bytes ''application/pdf'' False]
      \<and> (all_served fs \<and> path \<notin> fst ` set (buckets s bucket) \<longrightarrow>
           fst R = ok (JObj [(''file_url'', JStr (public_url ev bucket path)),
                             (''path'', JStr path)])
           \<and> buckets (st (snd R)) bucket = buckets s bucket @ [(path, bytes)])
      \<and> (all_served fs \<and> path \<in> fst ` set (buckets s bucket) \<longrightarrow>
           fst R = server_error (message already_exists)
           \<and> buckets (st (snd R)) = buckets s))"

section \<open>Sample surroundings, stores and requests\<close>

text \<open>
  Concrete inputs on which the properties below are evaluated. In \<open>demo_env\<close> the decoder
  is a stand-in that accepts strings only and the public URL is the bucket and the path
  behind a fixed host.
\<close>

definition demo_env :: env where
  "demo_env = \<lparr>date_now = 1700000000000, iso_now = ''2024-01-01T00:00:00.000Z'',
     buffer_from = (\<lambda>v. case v of Some (JStr s) \<Rightarrow> Inr (map of_char s)
                        | _ \<Rightarrow> Inl ''The first argument must be of type string''),
     public_url = (\<lambda>b p. ''https://x/'' @ b @ ''/'' @ p),
     db_now = ''2024-01-01T00:00:00+00:00'',
     pg_le = (\<lambda>a b. length a \<le> length b)\<rparr>"

definition statement_timeout :: store_error where
  "statement_timeout =
     \<lparr>code = ''57014'', message = ''canceling statement due to statement timeout''\<rparr>"

definition empty_store :: store where
  "empty_store = \<lparr>tables = (\<lambda>_. []), buckets = (\<lambda>_. []), next_id = 1\<rparr>"

definition todo_row :: obj where
  "todo_row = [(''id'', JNum 7), (''profile'', JStr ''piyush''), (''content'', JStr ''x''),
               (''created_at'', JStr ''2024-01-01T00:00:00+00:00'')]"

definition store_with_todo :: store where
  "store_with_todo =
     \<lparr>tables = (\<lambda>_. [])(''todos'' := [todo_row]), buckets = (\<lambda>_. []), next_id = 8\<rparr>"

definition leetcode_row :: obj where
  "leetcode_row =
     [(''platform'', JStr ''leetcode''), (''rating'', JNum 1500), (''id'', JNum 1),
      (''created_at'', JStr ''2024-01-01T00:00:00+00:00'')]"

definition store_with_leetcode :: store where
  "store_with_leetcode =
     \<lparr>tables = (\<lambda>_. [])(''cp_ratings'' := [leetcode_row]), buckets = (\<lambda>_. []), next_id = 2\<rparr>"

definition may_first_row :: obj where
  "may_first_row = [(''id'', JNum 3), (''date'', JStr ''2024-05-01''),
                    (''dsa_questions_solved'', JNum 4)]"

definition store_with_daily_log :: store where
  "store_with_daily_log =
     \<lparr>tables = (\<lambda>_. [])(''daily_logs_piyush'' := [may_first_row]), buckets = (\<lambda>_. []),
      next_id = 4\<rparr>"

definition store_with_habits :: store where
  "store_with_habits =
     \<lparr>tables = (\<lambda>_. [])
        (''habits'' := [[(''id'', JStr ''h1''), (''name'', JStr ''read'')],
                        [(''id'', JStr ''h2''), (''name'', JStr ''run'')]],
         ''habit_entries'' := [[(''id'', JNum 1), (''habit_id'', JStr ''h1'')],
                               [(''id'', JNum 2), (''habit_id'', JStr ''h2'')],
                               [(''id'', JNum 3), (''habit_id'', JStr ''h1'')]]),
      buckets = (\<lambda>_. []), next_id = 4\<rparr>"

definition store_with_certificate :: store where
  "store_with_certificate =
     \<lparr>tables = (\<lambda>_. []),
      buckets = (\<lambda>_. [])(''certificates'' :=
        [(''piyush/certificates/1700000000000-cv.pdf'', [1, 2, 3])]),
      next_id = 1\<rparr>"

definition no_query :: request where
  "no_query = \<lparr>params = [], query = [], body = []\<rparr>"

definition todos_of_piyush :: request where
  "todos_of_piyush = \<lparr>params = [], query = [(''profile'', JStr ''piyush'')], body = []\<rparr>"

definition todo_ok :: request where
  "todo_ok = \<lparr>params = [], query = [],
              body = [(''profile'', JStr ''a''), (''content'', JStr ''x'')]\<rparr>"

definition todo_empty_profile :: request where
  "todo_empty_profile = \<lparr>params = [], query = [],
              body = [(''profile'', JStr []), (''content'', JStr ''x'')]\<rparr>"

definition project_with_description :: request where
  "project_with_description = \<lparr>params = [], query = [],
     body = [(''profile'', JStr ''piyush''), (''project_name'', JStr ''tracker''),
             (''description'', JStr ''api''), (''stars'', JNum 5)]\<rparr>"

definition sql_course_zero_total :: request where
  "sql_course_zero_total = \<lparr>params = [], query = [],
     body = [(''profile'', JStr ''shruti''), (''course_name'', JStr ''sql''),
             (''platform'', JStr ''coursera''), (''total_content'', JNum 0),
             (''completed_content'', JNum 7)]\<rparr>"

definition edit_todo_7 :: request where
  "edit_todo_7 = \<lparr>params = [(''id'', JStr ''7'')], query = [],
                  body = [(''content'', JStr ''y''), (''done'', JBool True)]\<rparr>"

definition habit_h1 :: request where
  "habit_h1 = \<lparr>params = [(''id'', JStr ''h1'')], query = [], body = []\<rparr>"

definition log_of_may_first :: request where
  "log_of_may_first = \<lparr>params = [(''date'', JStr ''2024-05-01'')], query = [], body = []\<rparr>"

definition mixed_body :: request where
  "mixed_body = \<lparr>params = [], query = [],
     body = [(''habit_id'', JStr ''h1''), (''date'', JStr ''2024-05-01''),
             (''profile'', JStr ''piyush''), (''name'', JStr ''read''),
             (''course_name'', JStr ''dsa''), (''platform'', JStr ''udemy''),
             (''sort_order'', JNum 3), (''total_content'', JNum 0)]\<rparr>"

definition course_zero_total :: request where
  "course_zero_total = \<lparr>params = [], query = [],
     body = [(''profile'', JStr ''piyush''), (''course_name'', JStr ''dsa''),
             (''platform'', JStr ''udemy''), (''total_content'', JNum 0)]\<rparr>"

definition put_leetcode_1500 :: request where
  "put_leetcode_1500 =
     \<lparr>params = [(''platform'', JStr ''leetcode'')], query = [], body = [(''rating'', JNum 1500)]\<rparr>"

definition put_leetcode_1600 :: request where
  "put_leetcode_1600 =
     \<lparr>params = [(''platform'', JStr ''leetcode'')], query = [], body = [(''rating'', JNum 1600)]\<rparr>"

definition certificate_upload :: request where
  "certificate_upload = \<lparr>params = [], query = [],
     body = [(''fileName'', JStr ''cv.pdf''), (''fileBase64'', JStr ''QQ==''),
             (''profile'', JStr ''piyush'')]\<rparr>"

section \<open>Facts about the store and the handler shapes\<close>

subsection \<open>Calls, object literals and rows\<close>

lemma backend_log: "log (snd (backend ev c x)) = log x @ [(c, fst (backend ev c x))]"
  by (auto simp: backend_def split: list.splits option.splits prod.splits)

lemma backend_served:
  assumes "all_served (pending x)"
  shows "backend ev c x =
           (fst (perform ev c (st x)),
            x\<lparr>st := snd (perform ev c (st x)), pending := tl (pending x),
              log := log x @ [(c, fst (perform ev c (st x)))]\<rparr>)"
  using assms by (auto simp: backend_def all_served_def split: list.splits option.splits prod.splits)

lemma all_served_tl: "all_served fs \<Longrightarrow> all_served (tl fs)"
  by (cases fs) (auto simp: all_served_def)

lemma backend_failed:
  "pending x = Some err # fs \<Longrightarrow>
   backend ev c x = (Inl err, x\<lparr>pending := fs, log := log x @ [(c, Inl err)]\<rparr>)"
  by (simp add: backend_def)

lemma json_object_keys: "fst ` set (json_object kvs) \<subseteq> fst ` set kvs"
  by (induction kvs rule: json_object.induct) auto

lemma json_object_absent:
  "k \<notin> fst ` set kvs \<Longrightarrow> map_of (json_object kvs) k = None"
  using json_object_keys [of kvs] by (auto simp: map_of_eq_None_iff)

lemma get_prop_json_object:
  "distinct (map fst kvs) \<Longrightarrow>
   get_prop (json_object kvs) k = (case map_of kvs k of None \<Rightarrow> None | Some v \<Rightarrow> v)"
proof (induction kvs rule: json_object.induct)
  case 1
  then show ?case by (simp add: get_prop_def)
next
  case (2 k' kvs)
  then show ?case
    by (force simp: get_prop_def json_object_absent split: option.splits)
next
  case (3 k' v kvs)
  then show ?case by (auto simp: get_prop_def)
qed

lemma map_of_filter_absent:
  "map_of (filter (\<lambda>(k, v). P k) u) k = (if P k then map_of u k else None)"
  by (induction u) auto

lemma map_of_map_override:
  "map_of (map (\<lambda>(k, v). (k, f k v)) r) k = map_option (f k) (map_of r k)"
  by (induction r) auto

lemma get_prop_merge:
  "get_prop (merge r u) k = (case get_prop u k of None \<Rightarrow> get_prop r k | Some v \<Rightarrow> Some v)"
  by (auto simp: get_prop_def merge_def map_of_filter_absent map_of_map_override map_add_def
           split: option.splits)

lemma get_prop_new_row:
  "get_prop (new_row ev s p) k =
     (case get_prop p k of
        Some v \<Rightarrow> Some v
      | None \<Rightarrow> if k = ''id'' then Some (JNum (int (next_id s)))
                else if k = ''created_at'' then Some (JStr (db_now ev)) else None)"
  by (auto simp: new_row_def get_prop_def map_add_def split: option.splits)

subsection \<open>Delete and update by id\<close>

lemma delete_routes_handle:
  assumes "(e, t) \<in> set delete_routes"
  shows "e = DeleteHabits \<and> t = ''habits'' \<and> handle ev e = delete_habit ev
         \<or> handle ev e = delete_by_id ev t"
  using assms by (auto simp: delete_routes_def)

lemma update_routes_handle:
  assumes "(e, t) \<in> set update_routes"
  shows "handle ev e = update_by_id ev t"
  using assms by (auto simp: update_routes_def)

lemma by_date_routes_handle:
  assumes "(e, t) \<in> set by_date_routes"
  shows "handle ev e = get_by_date ev t"
  using assms by (auto simp: by_date_routes_def)

lemma delete_by_id_served:
  assumes "all_served fs"
  shows "delete_by_id ev t req (start s fs) =
          (ok (JObj (json_object [(''id'', get_prop (params req) ''id'')])),
           \<lparr>st = s\<lparr>tables := (tables s)
                  (t := filter (\<lambda>r. \<not> matches_all ev [Eq ''id'' (js_string (get_prop (params req) ''id''))] r)
                          (tables s t))\<rparr>,
             pending = tl fs,
             log = [(Delete t [Eq ''id'' (js_string (get_prop (params req) ''id''))], Inr JNull)]\<rparr>)"
  using assms by (simp add: delete_by_id_def backend_served start_def Let_def)

lemma delete_habit_served:
  assumes "all_served fs"
  shows "delete_habit ev req (start s fs) =
          (ok (JObj (json_object [(''id'', get_prop (params req) ''id'')])),
           \<lparr>st = s\<lparr>tables := (tables s)
                  (''habit_entries'' := filter (\<lambda>r. \<not> matches_all ev [Eq ''habit_id'' (js_string (get_prop (params req) ''id''))] r)
                          (tables s ''habit_entries''),
                   ''habits'' := filter (\<lambda>r. \<not> matches_all ev [Eq ''id'' (js_string (get_prop (params req) ''id''))] r)
                          (tables s ''habits''))\<rparr>,
             pending = tl (tl fs),
             log = [(Delete ''habit_entries'' [Eq ''habit_id'' (js_string (get_prop (params req) ''id''))], Inr JNull),
                    (Delete ''habits'' [Eq ''id'' (js_string (get_prop (params req) ''id''))], Inr JNull)]\<rparr>)"
  using assms by (simp add: delete_habit_def backend_served start_def all_served_tl Let_def)

lemma update_by_id_log:
  "map fst (log (snd (update_by_id ev t req (start s fs)))) =
     [Update t (body req) [Eq ''id'' (js_string (get_prop (params req) ''id''))]]"
proof -
  obtain r x' where b: "backend ev (Update t (body req) [Eq ''id'' (js_string (get_prop (params req) ''id''))]) (start s fs) = (r, x')"
    by (cases "backend ev (Update t (body req) [Eq ''id'' (js_string (get_prop (params req) ''id''))]) (start s fs)")
  from backend_log [of ev "Update t (body req) [Eq ''id'' (js_string (get_prop (params req) ''id''))]" "start s fs"] b
  have "log x' = [(Update t (body req) [Eq ''id'' (js_string (get_prop (params req) ''id''))], r)]"
    by (simp add: start_def)
  with b show ?thesis
    by (cases r) (simp_all add: update_by_id_def Let_def)
qed

lemma update_by_id_served:
  assumes "all_served fs"
    and "filter (matches ev (Eq ''id'' (js_string (get_prop (params req) ''id'')))) (tables s t) = [r]"
  shows "update_by_id ev t req (start s fs) =
          (ok (JObj (merge r (body req))),
           \<lparr>st = s\<lparr>tables := (tables s)
                  (t := map (\<lambda>x. if matches ev (Eq ''id'' (js_string (get_prop (params req) ''id''))) x
                                  then merge x (body req) else x) (tables s t))\<rparr>,
             pending = tl fs,
             log = [(Update t (body req) [Eq ''id'' (js_string (get_prop (params req) ''id''))],
                     Inr (JObj (merge r (body req))))]\<rparr>)"
proof -
  have m: "matches_all ev [Eq ''id'' (js_string (get_prop (params req) ''id''))]
             = matches ev (Eq ''id'' (js_string (get_prop (params req) ''id'')))"
    by (rule ext) (simp add: matches_all_def)
  show ?thesis
    using assms by (simp add: update_by_id_def backend_served start_def Let_def m)
qed

lemma show_nat_small: "n < 10 \<Longrightarrow> show_nat n = [digit_char n]"
  by (subst show_nat.simps) simp

lemma show_nat_large:
  "10 \<le> n \<Longrightarrow> show_nat n = show_nat (n div 10) @ [digit_char (n mod 10)]"
  by (subst show_nat.simps) simp

lemmas show_simps = show_int_def show_nat_small show_nat_large digit_char_def

subsection \<open>Create\<close>

lemma create_valid:
  assumes "list_all (\<lambda>f. truthy (get_prop (body req) f)) required" and "all_served fs"
  shows "create ev t required msg literal req (start s fs) =
          (ok (JObj (new_row ev s (json_object (literal (body req))))),
           \<lparr>st = s\<lparr>tables := (tables s)
                     (t := tables s t @ [new_row ev s (json_object (literal (body req)))]),
                   next_id := Suc (next_id s)\<rparr>,
             pending = tl fs,
             log = [(Insert t (json_object (literal (body req))),
                     Inr (JObj (new_row ev s (json_object (literal (body req))))))]\<rparr>)"
  using assms
  by (simp add: create_def backend_served start_def Let_def list_ex_iff list_all_iff)

lemma create_invalid:
  assumes "\<not> list_all (\<lambda>f. truthy (get_prop (body req) f)) required"
  shows "create ev t required msg literal req x = (bad_request msg, x)"
  using assms by (simp add: create_def list_ex_iff list_all_iff)

lemma create_log:
  assumes "list_all (\<lambda>f. truthy (get_prop (body req) f)) required"
  shows "map fst (log (snd (create ev t required msg literal req (start s fs)))) =
           [Insert t (json_object (literal (body req)))]"
proof -
  let ?c = "Insert t (json_object (literal (body req)))"
  obtain r x' where b: "backend ev ?c (start s fs) = (r, x')"
    by (cases "backend ev ?c (start s fs)")
  from backend_log [of ev ?c "start s fs"] b have "log x' = [(?c, r)]"
    by (simp add: start_def)
  with b assms show ?thesis
    by (cases r) (simp_all add: create_def list_ex_iff list_all_iff)
qed

lemma distinct_json_object:
  "distinct (map fst kvs) \<Longrightarrow> distinct (map fst (json_object kvs))"
proof (induction kvs rule: json_object.induct)
  case (3 k v kvs)
  with json_object_keys [of kvs] show ?case by auto
qed simp_all

lemma create_meets_contract:
  assumes keys: "distinct (map fst (literal (body req)))"
    and fields: "\<And>k. map_of (literal (body req)) k =
           (if k \<in> set required \<union> set optional then Some (get_prop (body req) k)
            else case map_of defaulted k of
                   None \<Rightarrow> None
                 | Some d \<Rightarrow> Some (js_or (get_prop (body req) k) d))"
    and no_id: "''id'' \<notin> set required \<union> set optional \<union> fst ` set defaulted"
    and no_created_at: "''created_at'' \<notin> set required \<union> set optional \<union> fst ` set defaulted"
  shows "create_contract ev t required optional defaulted req s fs
           (create ev t required msg literal req (start s fs))"
proof -
  let ?p = "json_object (literal (body req))"
  let ?row = "?p @ [(''id'', JNum (int (next_id s))), (''created_at'', JStr (db_now ev))]"
  have payload_keys: "distinct (map fst ?p)"
    using keys by (rule distinct_json_object)
  have payload_fields: "get_prop ?p k =
      (if k \<in> set required \<union> set optional then get_prop (body req) k
       else case map_of defaulted k of
              None \<Rightarrow> None
            | Some d \<Rightarrow> if truthy (get_prop (body req) k) then get_prop (body req) k else Some d)"
    for k
    using fields [of k] by (simp add: get_prop_json_object [OF keys] js_or_def split: option.splits)
  from no_id have "map_of defaulted ''id'' = None"
    by (simp add: map_of_eq_None_iff)
  with no_id have id_free: "get_prop ?p ''id'' = None"
    by (simp add: payload_fields)
  from no_created_at have "map_of defaulted ''created_at'' = None"
    by (simp add: map_of_eq_None_iff)
  with no_created_at have stamp_free: "get_prop ?p ''created_at'' = None"
    by (simp add: payload_fields)
  from id_free stamp_free have row: "new_row ev s ?p = ?row"
    by (simp add: new_row_def)
  show ?thesis
  proof (cases "list_all (\<lambda>f. truthy (get_prop (body req) f)) required")
    case True
    have "map fst (log (snd (create ev t required msg literal req (start s fs)))) = [Insert t ?p]"
      using True by (rule create_log)
    moreover have "all_served fs \<longrightarrow>
        log (snd (create ev t required msg literal req (start s fs))) = [(Insert t ?p, Inr (JObj ?row))]
        \<and> fst (create ev t required msg literal req (start s fs)) = ok (JObj ?row)
        \<and> tables (st (snd (create ev t required msg literal req (start s fs)))) t
            = tables s t @ [?row]"
      using True by (simp add: create_valid row)
    ultimately show ?thesis
      unfolding create_contract_def ok_def using True payload_keys payload_fields
      by (intro conjI impI exI [of _ ?p] allI) simp_all
  next
    case False
    then show ?thesis
      unfolding create_contract_def by (auto simp: create_invalid start_def bad_request_def)
  qed
qed

lemma create_routes_contract:
  assumes "(e, t, required) \<in> set create_routes"
    and "(e, optional, defaulted) \<in> set create_optionals"
  shows "create_contract ev t required optional defaulted req s fs (run ev e req s fs)"
  using assms
  by (auto simp: create_routes_def create_optionals_def run_def pick_def pick_or_def
           intro!: create_meets_contract)

text \<open>Every create route has its entry in the table of optional fields, in the same order.\<close>

lemma create_optionals_cover_create_routes:
  "map fst create_optionals = map fst create_routes"
  by (simp add: create_optionals_def create_routes_def)

lemmas eval_simps =
  run_def start_def backend_def create_def update_by_id_def delete_by_id_def get_by_date_def
  pick_def pick_or_def js_or_def get_prop_def new_row_def merge_def matches_all_def
  order_rows_def project_def no_rows_def ok_def bad_request_def server_error_def
  all_served_def empty_store_def demo_env_def Let_def

subsection \<open>Defaults and lookups by date\<close>

lemma inserts_with_defaultI:
  assumes "cs = [Insert t p]" and "get_prop p k = js_or supplied d"
  shows "inserts_with_default cs t k supplied d"
  using assms by (auto simp: inserts_with_default_def js_or_def)

lemma get_by_date_served:
  assumes "all_served fs"
  shows "fst (get_by_date ev t req (start s fs)) =
           (case filter (matches ev (Eq ''date'' (js_string (get_prop (params req) ''date''))))
                   (tables s t) of
              [r] \<Rightarrow> ok (JObj r)
            | _ \<Rightarrow> ok JNull)"
proof -
  have m: "matches_all ev [Eq ''date'' (js_string (get_prop (params req) ''date''))]
             = matches ev (Eq ''date'' (js_string (get_prop (params req) ''date'')))"
    by (rule ext) (simp add: matches_all_def)
  show ?thesis
    using assms
    by (simp add: get_by_date_def backend_served start_def Let_def m order_rows_def project_def
          no_rows_def split: list.splits)
qed

lemma get_by_date_failed:
  "fst (get_by_date ev t req (start s (Some err # rest))) =
     (if code err = ''PGRST116'' then ok JNull else server_error (message err))"
  by (simp add: get_by_date_def backend_failed start_def Let_def)

subsection \<open>The progress row and the cascading delete\<close>

lemma backend_cases:
  obtains (failed) err rest where "pending x = Some err # rest"
      and "backend ev c x = (Inl err, x\<lparr>pending := rest, log := log x @ [(c, Inl err)]\<rparr>)"
  | (served) "backend ev c x =
       (fst (perform ev c (st x)),
        x\<lparr>st := snd (perform ev c (st x)), pending := tl (pending x),
          log := log x @ [(c, fst (perform ev c (st x)))]\<rparr>)"
  by (cases "pending x"; cases "hd (pending x)")
     (auto simp: backend_def split: prod.splits)

lemma select_single_all:
  "perform ev (Select t ''*'' [] None True) s =
     (case tables s t of [r] \<Rightarrow> (Inr (JObj r), s) | _ \<Rightarrow> (Inl no_rows, s))"
  by (simp add: matches_all_def order_rows_def project_def split: list.splits)

lemma get_a2z_progress_success_has_row:
  assumes "get_prop (json (fst (get_a2z_progress ev req x))) ''success'' = Some (JBool True)"
  shows "tables (st (snd (get_a2z_progress ev req x))) ''a2z_progress'' \<noteq> []"
proof (cases rule: backend_cases [of x ev "Select ''a2z_progress'' ''*'' [] None True"])
  case (failed err rest)
  note first = this
  show ?thesis
  proof (cases "code err = ''PGRST116''")
    case False
    with first assms show ?thesis
      by (simp add: get_a2z_progress_def server_error_def get_prop_def)
  next
    case True
    let ?x1 = "x\<lparr>pending := rest, log := log x @ [(Select ''a2z_progress'' ''*'' [] None True, Inl err)]\<rparr>"
    show ?thesis
    proof (cases rule: backend_cases [of ?x1 ev "Insert ''a2z_progress'' zero_counters"])
      case (failed err2 rest2)
      with first True assms show ?thesis
        by (simp add: get_a2z_progress_def zero_counters_def server_error_def get_prop_def)
    next
      case served
      with first True show ?thesis
        by (simp add: get_a2z_progress_def zero_counters_def Let_def)
    qed
  qed
next
  case served
  show ?thesis
  proof (cases "tables (st x) ''a2z_progress''")
    case Nil
    let ?x1 = "x\<lparr>pending := tl (pending x), log := log x @ [(Select ''a2z_progress'' ''*'' [] None True, Inl no_rows)]\<rparr>"
    from Nil served have first: "backend ev (Select ''a2z_progress'' ''*'' [] None True) x = (Inl no_rows, ?x1)"
      by (simp add: select_single_all del: perform.simps)
    show ?thesis
    proof (cases rule: backend_cases [of ?x1 ev "Insert ''a2z_progress'' zero_counters"])
      case (failed err2 rest2)
      with first assms show ?thesis
        by (simp add: get_a2z_progress_def zero_counters_def server_error_def get_prop_def
              no_rows_def)
    next
      case served
      with first show ?thesis
        by (simp add: get_a2z_progress_def zero_counters_def Let_def no_rows_def)
    qed
  next
    case (Cons r rs)
    show ?thesis
    proof (cases rs)
      case Nil
      with Cons served show ?thesis
        by (simp add: get_a2z_progress_def select_single_all del: perform.simps)
    next
      case (Cons r2 rs2)
      let ?x1 = "x\<lparr>pending := tl (pending x), log := log x @ [(Select ''a2z_progress'' ''*'' [] None True, Inl no_rows)]\<rparr>"
      from Cons \<open>tables (st x) ''a2z_progress'' = r # rs\<close> served
      have first: "backend ev (Select ''a2z_progress'' ''*'' [] None True) x = (Inl no_rows, ?x1)"
        by (simp add: select_single_all del: perform.simps)
      show ?thesis
      proof (cases rule: backend_cases [of ?x1 ev "Insert ''a2z_progress'' zero_counters"])
        case (failed err2 rest2)
        with first assms show ?thesis
          by (simp add: get_a2z_progress_def zero_counters_def server_error_def
                get_prop_def no_rows_def)
      next
        case served
        with first show ?thesis
          by (simp add: get_a2z_progress_def zero_counters_def Let_def no_rows_def)
      qed
    qed
  qed
qed

lemma get_a2z_progress_empty:
  assumes "all_served fs" and "tables s ''a2z_progress'' = []"
  shows "get_a2z_progress ev req (start s fs) =
          (ok (JObj (new_row ev s zero_counters)),
           \<lparr>st = s\<lparr>tables := (tables s)(''a2z_progress'' := [new_row ev s zero_counters]),
                   next_id := Suc (next_id s)\<rparr>,
             pending = tl (tl fs),
             log = [(Select ''a2z_progress'' ''*'' [] None True, Inl no_rows),
                    (Insert ''a2z_progress'' zero_counters,
                     Inr (JObj (new_row ev s zero_counters)))]\<rparr>)"
  using assms
proof -
  have first: "backend ev (Select ''a2z_progress'' ''*'' [] None True) (start s fs) =
      (Inl no_rows, \<lparr>st = s, pending = tl fs,
          log = [(Select ''a2z_progress'' ''*'' [] None True, Inl no_rows)]\<rparr>)"
    using assms by (simp add: backend_served start_def select_single_all del: perform.simps)
  have second: "backend ev (Insert ''a2z_progress'' zero_counters)
        \<lparr>st = s, pending = tl fs,
          log = [(Select ''a2z_progress'' ''*'' [] None True, Inl no_rows)]\<rparr> =
      (Inr (JObj (new_row ev s zero_counters)),
       \<lparr>st = s\<lparr>tables := (tables s)(''a2z_progress'' := [new_row ev s zero_counters]),
               next_id := Suc (next_id s)\<rparr>,
         pending = tl (tl fs),
         log = [(Select ''a2z_progress'' ''*'' [] None True, Inl no_rows),
                (Insert ''a2z_progress'' zero_counters,
                 Inr (JObj (new_row ev s zero_counters)))]\<rparr>)"
    using assms by (simp add: backend_served all_served_tl Let_def)
  from first second show ?thesis
    by (simp add: get_a2z_progress_def zero_counters_def no_rows_def)
qed

lemma matches_all_single: "matches_all ev [f] = matches ev f"
  by (rule ext) (simp add: matches_all_def)

lemma delete_habit_log:
  "map fst (log (snd (delete_habit ev req (start s fs)))) =
     [Delete ''habit_entries'' [Eq ''habit_id'' (js_string (get_prop (params req) ''id''))],
      Delete ''habits'' [Eq ''id'' (js_string (get_prop (params req) ''id''))]]"
proof -
  let ?c1 = "Delete ''habit_entries'' [Eq ''habit_id'' (js_string (get_prop (params req) ''id''))]"
  let ?c2 = "Delete ''habits'' [Eq ''id'' (js_string (get_prop (params req) ''id''))]"
  obtain r1 x1 where b1: "backend ev ?c1 (start s fs) = (r1, x1)"
    by (cases "backend ev ?c1 (start s fs)")
  obtain r2 x2 where b2: "backend ev ?c2 x1 = (r2, x2)"
    by (cases "backend ev ?c2 x1")
  from backend_log [of ev ?c1 "start s fs"] b1 have l1: "log x1 = [(?c1, r1)]"
    by (simp add: start_def)
  from backend_log [of ev ?c2 x1] b2 l1 have "log x2 = [(?c1, r1), (?c2, r2)]"
    by simp
  with b1 b2 show ?thesis
    by (cases r2) (simp_all add: delete_habit_def Let_def)
qed

lemma delete_habit_both_served:
  assumes "map snd (log (snd (delete_habit ev req (start s fs)))) = [Inr JNull, Inr JNull]"
  shows "delete_habit ev req (start s fs) =
          (ok (JObj (json_object [(''id'', get_prop (params req) ''id'')])),
           \<lparr>st = s\<lparr>tables := (tables s)
                  (''habit_entries'' := filter (\<lambda>r. \<not> matches ev (Eq ''habit_id'' (js_string (get_prop (params req) ''id''))) r)
                          (tables s ''habit_entries''),
                   ''habits'' := filter (\<lambda>r. \<not> matches ev (Eq ''id'' (js_string (get_prop (params req) ''id''))) r)
                          (tables s ''habits''))\<rparr>,
             pending = tl (tl fs),
             log = [(Delete ''habit_entries'' [Eq ''habit_id'' (js_string (get_prop (params req) ''id''))], Inr JNull),
                    (Delete ''habits'' [Eq ''id'' (js_string (get_prop (params req) ''id''))], Inr JNull)]\<rparr>)"
proof -
  let ?c1 = "Delete ''habit_entries'' [Eq ''habit_id'' (js_string (get_prop (params req) ''id''))]"
  let ?c2 = "Delete ''habits'' [Eq ''id'' (js_string (get_prop (params req) ''id''))]"
  show ?thesis
  proof (cases rule: backend_cases [of "start s fs" ev ?c1])
    case (failed err rest)
    note first = this
    let ?x1 = "start s fs\<lparr>pending := rest, log := log (start s fs) @ [(?c1, Inl err)]\<rparr>"
    from first have False
      using assms backend_log [of ev ?c2 ?x1]
      by (cases "backend ev ?c2 ?x1"; cases "fst (backend ev ?c2 ?x1)")
         (simp_all add: delete_habit_def Let_def start_def)
    then show ?thesis ..
  next
    case served
    note first = this
    let ?s1 = "snd (perform ev ?c1 s)"
    let ?x1 = "\<lparr>st = ?s1, pending = tl fs, log = [(?c1, Inr JNull)]\<rparr>"
    from first have b1: "backend ev ?c1 (start s fs) = (Inr JNull, ?x1)"
      by (simp add: start_def)
    show ?thesis
    proof (cases rule: backend_cases [of ?x1 ev ?c2])
      case (failed err rest)
      with b1 assms show ?thesis
        by (simp add: delete_habit_def Let_def)
    next
      case served
      with b1 show ?thesis
        by (simp add: delete_habit_def Let_def matches_all_single)
    qed
  qed
qed

subsection \<open>Decimal text and upload paths\<close>

lemma digit_char_codes: "\<forall>d<10. of_char (digit_char d) = (48 + d :: nat)"
  by (simp add: eval_nat_numeral All_less_Suc digit_char_def)

lemma digit_char_code: "d < 10 \<Longrightarrow> of_char (digit_char d) = (48 + d :: nat)"
  using digit_char_codes by blast

lemma digit_char_inj:
  assumes "a < 10" and "b < 10" and "digit_char a = digit_char b"
  shows "a = b"
proof -
  have "(48 + a :: nat) = of_char (digit_char a)"
    using assms(1) by (simp only: digit_char_code)
  also have "\<dots> = of_char (digit_char b)"
    by (simp only: assms(3))
  also have "\<dots> = 48 + b"
    using assms(2) by (simp only: digit_char_code)
  finally show ?thesis by simp
qed

lemma digit_char_not_slash: "d < 10 \<Longrightarrow> digit_char d \<noteq> CHR ''/''"
  using digit_char_code [of d] by (auto simp: of_char_eq_iff [symmetric] simp del: of_char_eq_iff)

lemma show_nat_nonempty: "show_nat n \<noteq> []"
  by (induction n rule: show_nat.induct) (subst show_nat.simps, simp)

lemma show_nat_no_slash: "CHR ''/'' \<notin> set (show_nat n)"
proof (induction n rule: show_nat.induct)
  case (1 n)
  show ?case
  proof (cases "n < 10")
    case True
    then show ?thesis
      using digit_char_not_slash [of n] by (subst show_nat.simps) auto
  next
    case False
    with 1 show ?thesis
      using digit_char_not_slash [of "n mod 10"] by (subst show_nat.simps) auto
  qed
qed

lemma show_nat_inj: "show_nat a = show_nat b \<Longrightarrow> a = b"
proof (induction a arbitrary: b rule: show_nat.induct)
  case (1 a)
  show ?case
  proof (cases "a < 10")
    case a: True
    show ?thesis
    proof (cases "b < 10")
      case True
      with a 1(2) show ?thesis
        by (simp add: show_nat.simps [of a] show_nat.simps [of b] digit_char_inj)
    next
      case False
      with a 1(2) show_nat_nonempty [of "b div 10"] show ?thesis
        by (simp add: show_nat.simps [of a] show_nat.simps [of b])
    qed
  next
    case a: False
    show ?thesis
    proof (cases "b < 10")
      case True
      with a 1(2) show_nat_nonempty [of "a div 10"] show ?thesis
        by (simp add: show_nat.simps [of a] show_nat.simps [of b])
    next
      case False
      with a 1(2) have eq: "show_nat (a div 10) = show_nat (b div 10)"
        and d: "digit_char (a mod 10) = digit_char (b mod 10)"
        by (simp_all add: show_nat.simps [of a] show_nat.simps [of b])
      from 1(1) [OF a eq] have "a div 10 = b div 10" .
      moreover from d have "a mod 10 = b mod 10"
        by (intro digit_char_inj) simp_all
      ultimately show ?thesis
        by (metis div_mult_mod_eq)
    qed
  qed
qed

lemma before_first_separator:
  "c \<notin> set p \<Longrightarrow> c \<notin> set q \<Longrightarrow> p @ c # r = q @ c # t \<Longrightarrow> p = q"
proof (induction p arbitrary: q)
  case Nil
  then show ?case by (cases q) auto
next
  case (Cons x p)
  then show ?case by (cases q) auto
qed

lemma after_last_separator:
  assumes "c \<notin> set u" and "c \<notin> set v" and "a @ c # u = b @ c # v"
  shows "u = v"
proof -
  from assms(3) have "rev (a @ c # u) = rev (b @ c # v)"
    by simp
  then have "rev u @ c # rev a = rev v @ c # rev b"
    by simp
  with assms(1,2) have "rev u = rev v"
    by (intro before_first_separator [of c "rev u" "rev v" "rev a" "rev b"]) simp_all
  then show ?thesis by simp
qed

lemma certificate_path_inj:
  assumes "certificate_path p1 t1 f = certificate_path p2 t2 f"
  shows "t1 = t2"
proof -
  from assms have "(js_string p1 @ ''/certificates'') @ CHR ''/'' # show_nat t1
                 = (js_string p2 @ ''/certificates'') @ CHR ''/'' # show_nat t2"
    by (simp add: certificate_path_def)
  then have "show_nat t1 = show_nat t2"
    by (rule after_last_separator [OF show_nat_no_slash show_nat_no_slash])
  then show ?thesis by (rule show_nat_inj)
qed

lemma case_doc_path_inj:
  assumes "case_doc_path t1 f = case_doc_path t2 f"
  shows "t1 = t2"
proof -
  from assms have "show_nat t1 = show_nat t2"
    by (simp add: case_doc_path_def)
  then show ?thesis by (rule show_nat_inj)
qed

lemma upload_meets_contract:
  assumes R: "R = (case backend ev (Upload bucket path bytes ''application/pdf'' False) (start s fs) of
             (Inl err, x') \<Rightarrow> (server_error (message err), x')
           | (Inr d, x') \<Rightarrow>
               (ok (JObj (json_object
                  [(''file_url'', Some (JStr (public_url ev bucket path))),
                   (''path'', get_member d ''path'')])), x'))"
  shows "upload_contract ev bucket path bytes s fs R"
proof -
  let ?c = "Upload bucket path bytes ''application/pdf'' False"
  obtain r x' where b: "backend ev ?c (start s fs) = (r, x')"
    by (cases "backend ev ?c (start s fs)")
  from backend_log [of ev ?c "start s fs"] b have l: "log x' = [(?c, r)]"
    by (simp add: start_def)
  have calls: "map fst (log (snd R)) = [?c]"
    using b l by (cases r) (simp_all add: R)
  have free: "fst R = ok (JObj [(''file_url'', JStr (public_url ev bucket path)),
                               (''path'', JStr path)])
              \<and> buckets (st (snd R)) bucket = buckets s bucket @ [(path, bytes)]"
    if "all_served fs" "path \<notin> fst ` set (buckets s bucket)"
  proof -
    from that(2) have "filter (\<lambda>p. fst p \<noteq> path) (buckets s bucket) = buckets s bucket"
      by (auto simp: filter_id_conv)
    with that show ?thesis
      by (simp add: R backend_served start_def get_prop_def)
  qed
  have taken: "fst R = server_error (message already_exists) \<and> buckets (st (snd R)) = buckets s"
    if "all_served fs" "path \<in> fst ` set (buckets s bucket)"
    using that by (simp add: R backend_served start_def)
  from calls free taken show ?thesis
    unfolding upload_contract_def by blast
qed

lemma demo_url_inj: "inj (public_url demo_env b)"
  by (simp add: demo_env_def inj_def)

lemma sample_paths:
  "certificate_path (Some (JStr ''piyush'')) 1700000000000 (Some (JStr ''cv.pdf'')) =
     ''piyush/certificates/1700000000000-cv.pdf''"
  "case_doc_path 1700000000000 (Some (JStr ''cv.pdf'')) =
     ''case-competitions/1700000000000-cv.pdf''"
  by (simp_all add: certificate_path_def case_doc_path_def show_nat_small show_nat_large
        digit_char_def)

subsection \<open>What every handler does with a failed call\<close>

lemma backend_start:
  obtains r x' where "backend ev c (start s fs) = (r, x')" and "log x' = [(c, r)]"
proof -
  obtain r x' where b: "backend ev c (start s fs) = (r, x')"
    by (cases "backend ev c (start s fs)")
  with backend_log [of ev c "start s fs"] have "log x' = [(c, r)]"
    by (simp add: start_def)
  with b show ?thesis by (rule that)
qed

lemma backend_next:
  assumes "log x = [(c0, r0)]"
  obtains r x' where "backend ev c x = (r, x')" and "log x' = [(c0, r0), (c, r)]"
proof -
  obtain r x' where b: "backend ev c x = (r, x')"
    by (cases "backend ev c x")
  with backend_log [of ev c x] assms have "log x' = [(c0, r0), (c, r)]"
    by simp
  with b show ?thesis by (rule that)
qed

lemma discipline_one_call:
  assumes "backend ev c (start s fs) = (r, x')" and "log x' = [(c, r)]"
  shows "error_discipline u t False s
           (case r of Inl err \<Rightarrow> (server_error (message err), x') | Inr d \<Rightarrow> (ok (f d), x'))"
  using assms
  by (cases r) (auto simp: error_discipline_def ok_def server_error_def nth_Cons')

lemma discipline_respond:
  "error_discipline u t False s (respond (backend ev c (start s fs)))"
proof -
  obtain r x' where b: "backend ev c (start s fs) = (r, x')" and l: "log x' = [(c, r)]"
    by (rule backend_start)
  from discipline_one_call [OF b l, of u t "\<lambda>d. d"] b show ?thesis
    by (cases r) simp_all
qed

lemma discipline_bad_request:
  "error_discipline u t True s (bad_request msg, start s fs)"
  by (auto simp: error_discipline_def start_def bad_request_def)

lemma discipline_list_all_rows:
  "error_discipline u t False s (list_all_rows ev table col asc req (start s fs))"
  by (simp add: list_all_rows_def discipline_respond)

lemma discipline_list_by_profile:
  assumes "bad \<longleftrightarrow> \<not> truthy (get_prop (query req) ''profile'')"
  shows "error_discipline u t bad s (list_by_profile ev table col asc req (start s fs))"
  using assms
  by (simp add: list_by_profile_def Let_def discipline_respond discipline_bad_request)

lemma discipline_create:
  assumes "bad \<longleftrightarrow> list_ex (\<lambda>f. \<not> truthy (get_prop (body req) f)) required"
  shows "error_discipline u t bad s (create ev table required msg literal req (start s fs))"
  using assms by (simp add: create_def discipline_respond discipline_bad_request)

lemma discipline_update_by_id:
  "error_discipline u t False s (update_by_id ev table req (start s fs))"
  by (simp add: update_by_id_def Let_def discipline_respond)

lemma discipline_delete_by_id:
  "error_discipline u t False s (delete_by_id ev table req (start s fs))"
proof -
  let ?c = "Delete table [Eq ''id'' (js_string (get_prop (params req) ''id''))]"
  obtain r x' where b: "backend ev ?c (start s fs) = (r, x')" and l: "log x' = [(?c, r)]"
    by (rule backend_start)
  from discipline_one_call
         [OF b l, of u t "\<lambda>d. JObj (json_object [(''id'', get_prop (params req) ''id'')])"] b
  show ?thesis
    by (cases r) (simp_all add: delete_by_id_def Let_def)
qed

lemma discipline_get_by_date:
  assumes "t 0"
  shows "error_discipline u t False s (get_by_date ev table req (start s fs))"
proof -
  let ?c = "Select table ''*'' [Eq ''date'' (js_string (get_prop (params req) ''date''))] None True"
  obtain r x' where "backend ev ?c (start s fs) = (r, x')" and "log x' = [(?c, r)]"
    by (rule backend_start)
  with assms show ?thesis
    by (cases r)
       (auto simp: get_by_date_def Let_def error_discipline_def ok_def server_error_def nth_Cons')
qed

lemma discipline_health:
  "error_discipline u t False s (health ev req (start s fs))"
  by (simp add: health_def error_discipline_def start_def)

lemma discipline_delete_habit:
  assumes "u 0"
  shows "error_discipline u t False s (delete_habit ev req (start s fs))"
proof -
  let ?c1 = "Delete ''habit_entries'' [Eq ''habit_id'' (js_string (get_prop (params req) ''id''))]"
  let ?c2 = "Delete ''habits'' [Eq ''id'' (js_string (get_prop (params req) ''id''))]"
  obtain r1 x1 where b1: "backend ev ?c1 (start s fs) = (r1, x1)" and l1: "log x1 = [(?c1, r1)]"
    by (rule backend_start)
  obtain r2 x2 where b2: "backend ev ?c2 x1 = (r2, x2)" and l2: "log x2 = [(?c1, r1), (?c2, r2)]"
    by (rule backend_next [OF l1])
  from assms b1 b2 l2 show ?thesis
    by (cases r2)
       (auto simp: delete_habit_def Let_def error_discipline_def ok_def server_error_def
          less_Suc_eq nth_Cons')
qed

lemma discipline_second_call:
  assumes l1: "log x1 = [(c1, r1)]"
    and first: "(\<exists>d. r1 = Inr d) \<or> u 0 \<or> (t 0 \<and> (\<exists>err. r1 = Inl err \<and> code err = ''PGRST116''))"
    and "c2 \<noteq> c1"
  shows "error_discipline u t False s (respond (backend ev c2 x1))"
proof -
  obtain r2 x2 where b2: "backend ev c2 x1 = (r2, x2)" and l2: "log x2 = [(c1, r1), (c2, r2)]"
    by (rule backend_next [OF l1])
  from first assms(3) b2 l2 show ?thesis
    by (cases r2)
       (auto simp: error_discipline_def ok_def server_error_def less_Suc_eq nth_Cons')
qed

lemma discipline_first_failed:
  assumes "log x1 = [(c1, Inl err)]"
  shows "error_discipline u t False s (server_error (message err), x1)"
  using assms by (auto simp: error_discipline_def server_error_def nth_Cons')

lemma discipline_no_failure:
  assumes "log x1 = [(c1, Inr d)]" and "status resp \<noteq> 400"
  shows "error_discipline u t False s (resp, x1)"
  using assms by (auto simp: error_discipline_def nth_Cons')

lemma discipline_thrown:
  "error_discipline u t False s (server_error msg, start s fs)"
  by (simp add: error_discipline_def server_error_def start_def)

lemma discipline_get_habit_entries:
  assumes bad: "bad \<longleftrightarrow> \<not> truthy (get_prop (query req) ''profile'')"
  shows "error_discipline u t bad s (get_habit_entries ev req (start s fs))"
proof (cases "truthy (get_prop (query req) ''profile'')")
  case False
  with bad show ?thesis
    by (simp add: get_habit_entries_def Let_def discipline_bad_request)
next
  case True
  with bad have valid: "bad = False" by simp
  let ?c1 = "Select ''habits'' ''id'' [Eq ''profile'' (js_string (get_prop (query req) ''profile''))]
               None False"
  obtain r1 x1 where b1: "backend ev ?c1 (start s fs) = (r1, x1)" and l1: "log x1 = [(?c1, r1)]"
    by (rule backend_start)
  show ?thesis
  proof (cases r1)
    case (Inl err)
    with True b1 l1 valid show ?thesis
      by (simp add: get_habit_entries_def Let_def discipline_first_failed)
  next
    case (Inr d)
    show ?thesis
    proof (cases d)
      case (JArr habits)
      show ?thesis
      proof (cases "habits = []")
        case True
        with \<open>truthy (get_prop (query req) ''profile'')\<close> b1 l1 Inr JArr valid show ?thesis
          by (simp add: get_habit_entries_def Let_def discipline_no_failure ok_def)
      next
        case False
        with \<open>truthy (get_prop (query req) ''profile'')\<close> b1 l1 Inr JArr valid show ?thesis
          by (simp add: get_habit_entries_def Let_def discipline_second_call)
      qed
    qed (use True b1 l1 Inr valid in
          \<open>simp_all add: get_habit_entries_def Let_def discipline_no_failure server_error_def\<close>)
  qed
qed

lemma discipline_put_cp_rating:
  assumes "u 0" and bad: "bad \<longleftrightarrow> get_prop (body req) ''rating'' = None"
  shows "error_discipline u t bad s (put_cp_rating ev req (start s fs))"
proof (cases "get_prop (body req) ''rating'' = None")
  case True
  with bad show ?thesis
    by (simp add: put_cp_rating_def Let_def discipline_bad_request)
next
  case False
  let ?c1 = "Select ''cp_ratings'' ''*''
               [Eq ''platform'' (js_string (get_prop (params req) ''platform''))] None True"
  obtain r1 x1 where b1: "backend ev ?c1 (start s fs) = (r1, x1)" and l1: "log x1 = [(?c1, r1)]"
    by (rule backend_start)
  from False obtain v where v: "get_prop (body req) ''rating'' = Some v"
    by auto
  from assms b1 l1 show ?thesis
    by (simp add: put_cp_rating_def Let_def v discipline_second_call)
qed

lemma discipline_put_a2z_progress:
  assumes "u 0"
  shows "error_discipline u t False s (put_a2z_progress ev req (start s fs))"
proof -
  let ?c1 = "Select ''a2z_progress'' ''*'' [] None True"
  obtain r1 x1 where b1: "backend ev ?c1 (start s fs) = (r1, x1)" and l1: "log x1 = [(?c1, r1)]"
    by (rule backend_start)
  from assms b1 l1 show ?thesis
    by (simp add: put_a2z_progress_def Let_def discipline_second_call)
qed

lemma discipline_get_a2z_progress:
  assumes "t 0"
  shows "error_discipline u t False s (get_a2z_progress ev req (start s fs))"
proof -
  let ?c1 = "Select ''a2z_progress'' ''*'' [] None True"
  let ?c2 = "Insert ''a2z_progress'' zero_counters"
  obtain r1 x1 where b1: "backend ev ?c1 (start s fs) = (r1, x1)" and l1: "log x1 = [(?c1, r1)]"
    by (rule backend_start)
  show ?thesis
  proof (cases r1)
    case (Inr d)
    with b1 l1 show ?thesis
      by (simp add: get_a2z_progress_def discipline_no_failure ok_def)
  next
    case (Inl err)
    show ?thesis
    proof (cases "code err = ''PGRST116''")
      case False
      with Inl b1 l1 show ?thesis
        by (simp add: get_a2z_progress_def discipline_first_failed)
    next
      case True
      have "error_discipline u t False s (respond (backend ev ?c2 x1))"
        using l1 Inl True assms by (intro discipline_second_call) auto
      moreover have "get_a2z_progress ev req (start s fs) = respond (backend ev ?c2 x1)"
        using b1 Inl True
        by (cases "backend ev ?c2 x1"; cases "fst (backend ev ?c2 x1)")
           (simp_all add: get_a2z_progress_def zero_counters_def)
      ultimately show ?thesis by simp
    qed
  qed
qed

lemma discipline_upload_tail:
  "error_discipline u t False s
     (case backend ev c (start s fs) of
        (Inl err, x') \<Rightarrow> (server_error (message err), x')
      | (Inr d, x') \<Rightarrow> (ok (f d), x'))"
proof -
  obtain r x' where b: "backend ev c (start s fs) = (r, x')" and l: "log x' = [(c, r)]"
    by (rule backend_start)
  from discipline_one_call [OF b l, of u t f] b show ?thesis
    by (cases r) simp_all
qed

lemma discipline_upload_certificate:
  assumes "bad \<longleftrightarrow>
    list_ex (\<lambda>f. \<not> truthy (get_prop (body req) f)) [''fileName'', ''fileBase64'', ''profile'']"
  shows "error_discipline u t bad s (upload_certificate ev req (start s fs))"
  using assms
  by (simp add: upload_certificate_def Let_def discipline_bad_request discipline_upload_tail
        discipline_thrown split: sum.splits)

lemma discipline_upload_case_competition_doc:
  assumes "bad \<longleftrightarrow>
    list_ex (\<lambda>f. \<not> truthy (get_prop (body req) f)) [''fileName'', ''fileBase64'']"
  shows "error_discipline u t bad s (upload_case_competition_doc ev req (start s fs))"
  using assms
  by (simp add: upload_case_competition_doc_def Let_def discipline_bad_request
        discipline_upload_tail discipline_thrown split: sum.splits)

lemmas discipline_shapes =
  discipline_health discipline_list_all_rows discipline_list_by_profile discipline_create
  discipline_update_by_id discipline_delete_by_id discipline_get_by_date
  discipline_delete_habit discipline_get_habit_entries discipline_put_cp_rating
  discipline_get_a2z_progress discipline_put_a2z_progress discipline_upload_certificate
  discipline_upload_case_competition_doc

lemma discipline_every_endpoint:
  "error_discipline (unchecked_call e) (no_row_lookup e) (rejects e req) s (run ev e req s fs)"
  by (cases e)
     (simp_all add: run_def rejects_def profile_routes_def create_routes_def
        unchecked_call_def no_row_lookup_def discipline_shapes)

subsection \<open>Writes to the ratings table\<close>

lemma backend_frame:
  assumes "backend ev c x = (r, x')" and "writes c \<noteq> Some t"
  shows "tables (st x') t = tables (st x) t"
proof (cases rule: backend_cases [of x ev c])
  case (failed err rest)
  with assms(1) show ?thesis by auto
next
  case served
  with assms show ?thesis
    by (cases c) (auto simp: Let_def split: list.splits if_splits)
qed

lemma st_respond: "st (snd (respond p)) = st (snd p)"
  by (cases p; cases "fst p") auto

lemma frame_respond:
  assumes "writes c \<noteq> Some t"
  shows "tables (st (snd (respond (backend ev c x)))) t = tables (st x) t"
  using backend_frame [OF _ assms, of ev x] by (cases "backend ev c x") (simp add: st_respond)

lemma frame_list_all_rows:
  "tables (st (snd (list_all_rows ev table col asc req x))) t = tables (st x) t"
  by (simp add: list_all_rows_def frame_respond)

lemma frame_list_by_profile:
  "tables (st (snd (list_by_profile ev table col asc req x))) t = tables (st x) t"
  by (simp add: list_by_profile_def Let_def frame_respond)

lemma frame_create:
  "table \<noteq> t \<Longrightarrow> tables (st (snd (create ev table required msg literal req x))) t = tables (st x) t"
  by (simp add: create_def frame_respond)

lemma frame_update_by_id:
  "table \<noteq> t \<Longrightarrow> tables (st (snd (update_by_id ev table req x))) t = tables (st x) t"
  by (simp add: update_by_id_def Let_def frame_respond)

lemma frame_delete_by_id:
  "table \<noteq> t \<Longrightarrow> tables (st (snd (delete_by_id ev table req x))) t = tables (st x) t"
  by (auto simp: delete_by_id_def Let_def split: prod.splits sum.splits dest!: backend_frame [where t = t])

lemma frame_get_by_date:
  "tables (st (snd (get_by_date ev table req x))) t = tables (st x) t"
  by (auto simp: get_by_date_def Let_def split: prod.splits sum.splits dest!: backend_frame [where t = t])

lemma frame_health: "tables (st (snd (health ev req x))) t = tables (st x) t"
  by (simp add: health_def)

lemma frame_delete_habit:
  "t \<noteq> ''habits'' \<Longrightarrow> t \<noteq> ''habit_entries'' \<Longrightarrow>
   tables (st (snd (delete_habit ev req x))) t = tables (st x) t"
  by (auto simp: delete_habit_def Let_def split: prod.splits sum.splits dest!: backend_frame [where t = t])

lemma frame_get_habit_entries:
  "tables (st (snd (get_habit_entries ev req x))) t = tables (st x) t"
  by (auto simp: get_habit_entries_def Let_def frame_respond
        split: prod.splits sum.splits jsval.splits dest!: backend_frame [where t = t])

lemma frame_get_a2z_progress:
  "t \<noteq> ''a2z_progress'' \<Longrightarrow> tables (st (snd (get_a2z_progress ev req x))) t = tables (st x) t"
  by (auto simp: get_a2z_progress_def Let_def split: prod.splits sum.splits dest!: backend_frame [where t = t])

lemma frame_put_a2z_progress:
  "t \<noteq> ''a2z_progress'' \<Longrightarrow> tables (st (snd (put_a2z_progress ev req x))) t = tables (st x) t"
  by (auto simp: put_a2z_progress_def Let_def frame_respond split: prod.splits sum.splits
        dest!: backend_frame [where t = t])

lemma frame_upload_certificate:
  "tables (st (snd (upload_certificate ev req x))) t = tables (st x) t"
  by (auto simp: upload_certificate_def Let_def split: prod.splits sum.splits dest!: backend_frame [where t = t])

lemma frame_upload_case_competition_doc:
  "tables (st (snd (upload_case_competition_doc ev req x))) t = tables (st x) t"
  by (auto simp: upload_case_competition_doc_def Let_def split: prod.splits sum.splits
        dest!: backend_frame [where t = t])

lemmas frame_shapes =
  frame_health frame_list_all_rows frame_list_by_profile frame_create frame_update_by_id
  frame_delete_by_id frame_get_by_date frame_delete_habit frame_get_habit_entries
  frame_get_a2z_progress frame_put_a2z_progress frame_upload_certificate
  frame_upload_case_competition_doc

lemma only_the_upsert_writes_cp_ratings:
  assumes "e \<noteq> PutCpRatings"
  shows "tables (st (snd (handle ev e req x))) ''cp_ratings'' = tables (st x) ''cp_ratings''"
  using assms by (cases e) (simp_all add: frame_shapes)

lemma platform_keys_Nil: "platform_keys [] = []"
  by (simp add: platform_keys_def)

lemma platform_keys_Cons:
  "platform_keys (r # rs) =
     (case pg_text (get_prop r ''platform'') of
        None \<Rightarrow> platform_keys rs | Some k \<Rightarrow> k # platform_keys rs)"
  unfolding platform_keys_def by simp

lemma platform_keys_append: "platform_keys (xs @ ys) = platform_keys xs @ platform_keys ys"
  by (induction xs) (simp_all add: platform_keys_Nil platform_keys_Cons split: option.splits)

lemma matches_Eq: "matches ev (Eq c v) = (\<lambda>r. pg_text (get_prop r c) = Some v)"
  by (rule ext) simp

lemma no_match_iff_key_absent:
  "filter (matches ev (Eq ''platform'' p)) rows = [] \<longleftrightarrow> p \<notin> set (platform_keys rows)"
  by (induction rows) (auto simp: platform_keys_Nil platform_keys_Cons split: option.splits)

lemma unique_platform_matches:
  assumes "one_row_per_platform rows"
  shows "filter (matches ev (Eq ''platform'' p)) rows = []
         \<or> (\<exists>r. filter (matches ev (Eq ''platform'' p)) rows = [r])"
  using assms unfolding one_row_per_platform_def
proof (induction rows)
  case Nil
  then show ?case by simp
next
  case (Cons r rs)
  show ?case
  proof (cases "matches ev (Eq ''platform'' p) r")
    case True
    then have "pg_text (get_prop r ''platform'') = Some p" by simp
    with Cons.prems have "p \<notin> set (platform_keys rs)"
      by (simp add: platform_keys_Cons)
    then have "filter (matches ev (Eq ''platform'' p)) rs = []"
      by (simp add: no_match_iff_key_absent)
    with True show ?thesis by (simp add: matches_Eq)
  next
    case False
    from Cons.prems have "distinct (platform_keys rs)"
      by (auto simp: platform_keys_Cons split: option.splits)
    with Cons.IH False show ?thesis by (simp add: matches_Eq)
  qed
qed

lemma platform_keys_update:
  assumes "map_of u ''platform'' = None"
  shows "platform_keys (map (\<lambda>x. if P x then merge x u else x) rows) = platform_keys rows"
proof -
  from assms have "get_prop u ''platform'' = None"
    by (simp add: get_prop_def)
  then have "get_prop (merge x u) ''platform'' = get_prop x ''platform''" for x
    by (simp add: get_prop_merge)
  then show ?thesis
    by (induction rows) (simp_all add: platform_keys_Nil platform_keys_Cons split: option.splits)
qed

lemma pg_text_is_js_string: "pg_text v = Some k \<Longrightarrow> k = js_string v"
  by (cases v rule: pg_text.cases) auto

lemma platform_of_inserted_row:
  "get_prop (new_row ev s (json_object [(''platform'', platform), (''rating'', rating)]))
     ''platform'' = platform"
  by (cases platform; cases rating) (simp_all add: new_row_def get_prop_def)

lemma perform_lookup_platform:
  "perform ev (Select ''cp_ratings'' ''*'' [Eq ''platform'' p] None True) s =
     (case filter (matches ev (Eq ''platform'' p)) (tables s ''cp_ratings'') of
        [r] \<Rightarrow> (Inr (JObj r), s)
      | _ \<Rightarrow> (Inl no_rows, s))"
  by (simp add: matches_all_single order_rows_def project_def split: list.splits)

lemma put_cp_rating_keeps_platforms_unique:
  assumes inv: "one_row_per_platform (tables s ''cp_ratings'')"
    and served: "lookup_served (ev, PutCpRatings, req, fs)"
  shows "one_row_per_platform
           (tables (st (snd (put_cp_rating ev req (start s fs)))) ''cp_ratings'')"
proof (cases "get_prop (body req) ''rating''")
  case None
  with inv show ?thesis
    by (simp add: put_cp_rating_def Let_def start_def)
next
  case (Some v)
  let ?platform = "get_prop (params req) ''platform''"
  let ?p = "js_string ?platform"
  let ?look = "Select ''cp_ratings'' ''*'' [Eq ''platform'' ?p] None True"
  let ?rows = "tables s ''cp_ratings''"
  let ?hits = "filter (matches ev (Eq ''platform'' ?p)) ?rows"
  let ?x1 = "\<lambda>r. \<lparr>st = s, pending = tl fs, log = [(?look, r)]\<rparr>"
  from served have first: "backend ev ?look (start s fs) =
      (fst (perform ev ?look s), ?x1 (fst (perform ev ?look s)))"
    by (cases fs; cases "hd fs")
       (simp_all add: backend_def start_def perform_lookup_platform split: list.splits
          del: perform.simps)
  from unique_platform_matches [OF inv, of ev ?p]
  consider (absent) "?hits = []" | (present) r where "?hits = [r]"
    by blast
  then show ?thesis
  proof cases
    case absent
    let ?ins = "Insert ''cp_ratings'' (json_object [(''platform'', ?platform), (''rating'', Some v)])"
    let ?row = "new_row ev s (json_object [(''platform'', ?platform), (''rating'', Some v)])"
    from absent have looked: "perform ev ?look s = (Inl no_rows, s)"
      by (simp add: perform_lookup_platform del: perform.simps)
    have run: "put_cp_rating ev req (start s fs) = respond (backend ev ?ins (?x1 (Inl no_rows)))"
      using Some first looked by (simp add: put_cp_rating_def Let_def)
    show ?thesis
    proof (cases rule: backend_cases [of "?x1 (Inl no_rows)" ev ?ins])
      case (failed err rest)
      with run inv show ?thesis by (simp add: st_respond)
    next
      case served
      have key: "one_row_per_platform (?rows @ [?row])"
      proof (cases "pg_text ?platform")
        case None
        with inv show ?thesis
          by (simp add: one_row_per_platform_def platform_keys_append platform_keys_Cons
                platform_keys_Nil platform_of_inserted_row)
      next
        case (Some k)
        then have "k = ?p" by (rule pg_text_is_js_string)
        with absent have "k \<notin> set (platform_keys ?rows)"
          by (simp add: no_match_iff_key_absent)
        with inv Some show ?thesis
          by (simp add: one_row_per_platform_def platform_keys_append platform_keys_Cons
                platform_keys_Nil platform_of_inserted_row)
      qed
      from served run key show ?thesis
        by (simp add: st_respond Let_def)
    qed
  next
    case (present r)
    let ?u = "[(''rating'', v), (''updated_at'', JStr (iso_now ev))]"
    let ?upd = "Update ''cp_ratings'' ?u [Eq ''platform'' ?p]"
    from present have looked: "perform ev ?look s = (Inr (JObj r), s)"
      by (simp add: perform_lookup_platform del: perform.simps)
    have run: "put_cp_rating ev req (start s fs) = respond (backend ev ?upd (?x1 (Inr (JObj r))))"
      using Some first looked by (simp add: put_cp_rating_def Let_def)
    show ?thesis
    proof (cases rule: backend_cases [of "?x1 (Inr (JObj r))" ev ?upd])
      case (failed err rest)
      with run inv show ?thesis by (simp add: st_respond)
    next
      case served
      have "platform_keys (map (\<lambda>x. if matches ev (Eq ''platform'' ?p) x then merge x ?u else x) ?rows)
            = platform_keys ?rows"
        by (rule platform_keys_update) simp
      with served run inv present show ?thesis
        by (simp add: st_respond matches_all_single one_row_per_platform_def matches_Eq)
    qed
  qed
qed

lemma step_keeps_platforms_unique:
  assumes "one_row_per_platform (tables s ''cp_ratings'')" and "lookup_served (ev, e, req, fs)"
  shows "one_row_per_platform (tables (st (snd (run ev e req s fs))) ''cp_ratings'')"
proof (cases "e = PutCpRatings")
  case True
  with assms show ?thesis
    by (simp add: run_def put_cp_rating_keeps_platforms_unique)
next
  case False
  with assms(1) show ?thesis
    by (simp add: run_def only_the_upsert_writes_cp_ratings start_def)
qed

lemma run_all_keeps_platforms_unique:
  assumes "one_row_per_platform (tables s ''cp_ratings'')" and "list_all lookup_served steps"
  shows "one_row_per_platform (tables (run_all steps s) ''cp_ratings'')"
  using assms
proof (induction steps arbitrary: s)
  case Nil
  then show ?case by simp
next
  case (Cons a steps)
  obtain ev e req fs where a: "a = (ev, e, req, fs)"
    by (cases a) auto
  with Cons.prems have "one_row_per_platform (tables (st (snd (run ev e req s fs))) ''cp_ratings'')"
    by (simp add: step_keeps_platforms_unique)
  with Cons.IH Cons.prems a show ?case by simp
qed

lemma put_cp_rating_inserts:
  assumes "get_prop (body req) ''rating'' = Some v" and "all_served fs"
    and "filter (matches ev (Eq ''platform'' (js_string (get_prop (params req) ''platform''))))
           (tables s ''cp_ratings'') = []"
  shows "put_cp_rating ev req (start s fs) =
    (ok (JObj (new_row ev s
           (json_object [(''platform'', get_prop (params req) ''platform''), (''rating'', Some v)]))),
     \<lparr>st = s\<lparr>tables := (tables s)(''cp_ratings'' := tables s ''cp_ratings'' @
               [new_row ev s
                  (json_object [(''platform'', get_prop (params req) ''platform''),
                                (''rating'', Some v)])]),
             next_id := Suc (next_id s)\<rparr>,
       pending = tl (tl fs),
       log = [(Select ''cp_ratings'' ''*''
                 [Eq ''platform'' (js_string (get_prop (params req) ''platform''))] None True,
               Inl no_rows),
              (Insert ''cp_ratings''
                 (json_object [(''platform'', get_prop (params req) ''platform''),
                               (''rating'', Some v)]),
               Inr (JObj (new_row ev s
                 (json_object [(''platform'', get_prop (params req) ''platform''),
                               (''rating'', Some v)]))))]\<rparr>)"
proof -
  let ?look = "Select ''cp_ratings'' ''*''
                 [Eq ''platform'' (js_string (get_prop (params req) ''platform''))] None True"
  let ?x1 = "\<lparr>st = s, pending = tl fs, log = [(?look, Inl no_rows)]\<rparr>"
  have first: "backend ev ?look (start s fs) = (Inl no_rows, ?x1)"
    using assms(2,3)
    by (simp add: backend_served start_def perform_lookup_platform del: perform.simps)
  from assms(2) have "all_served (pending ?x1)"
    by (simp add: all_served_tl)
  from backend_served [OF this] first assms(1) show ?thesis
    by (simp add: put_cp_rating_def Let_def no_rows_def)
qed

lemma put_cp_rating_updates:
  assumes "get_prop (body req) ''rating'' = Some v" and "all_served fs"
    and "filter (matches ev (Eq ''platform'' (js_string (get_prop (params req) ''platform''))))
           (tables s ''cp_ratings'') = [r]"
  shows "put_cp_rating ev req (start s fs) =
    (ok (JObj (merge r [(''rating'', v), (''updated_at'', JStr (iso_now ev))])),
     \<lparr>st = s\<lparr>tables := (tables s)(''cp_ratings'' :=
               map (\<lambda>x. if matches ev
                             (Eq ''platform'' (js_string (get_prop (params req) ''platform''))) x
                        then merge x [(''rating'', v), (''updated_at'', JStr (iso_now ev))]
                        else x)
                 (tables s ''cp_ratings''))\<rparr>,
       pending = tl (tl fs),
       log = [(Select ''cp_ratings'' ''*''
                 [Eq ''platform'' (js_string (get_prop (params req) ''platform''))] None True,
               Inr (JObj r)),
              (Update ''cp_ratings'' [(''rating'', v), (''updated_at'', JStr (iso_now ev))]
                 [Eq ''platform'' (js_string (get_prop (params req) ''platform''))],
               Inr (JObj (merge r [(''rating'', v), (''updated_at'', JStr (iso_now ev))])))]\<rparr>)"
proof -
  let ?look = "Select ''cp_ratings'' ''*''
                 [Eq ''platform'' (js_string (get_prop (params req) ''platform''))] None True"
  let ?x1 = "\<lparr>st = s, pending = tl fs, log = [(?look, Inr (JObj r))]\<rparr>"
  have first: "backend ev ?look (start s fs) = (Inr (JObj r), ?x1)"
    using assms(2,3)
    by (simp add: backend_served start_def perform_lookup_platform del: perform.simps)
  from assms(2) have "all_served (pending ?x1)"
    by (simp add: all_served_tl)
  from backend_served [OF this] first assms(1,3) show ?thesis
    by (simp add: put_cp_rating_def Let_def matches_all_single)
qed

text \<open>
  The rating upsert when the backend answers: with no row of the platform the handler
  looks it up and inserts \<^verbatim>\<open>{platform, rating}\<close>; with one row it looks it up and updates
  \<^verbatim>\<open>{rating, updated_at}\<close> on that platform, the other rows staying as they are; and over
  any sequence of requests to any routes, no platform gets a second row as long as the
  lookup of each rating upsert is answered.
\<close>

lemma upsert_with_answered_lookups:
  "(get_prop (body req) ''rating'' = Some v \<and> all_served fs
      \<and> filter (matches ev (Eq ''platform'' (js_string (get_prop (params req) ''platform''))))
           (tables s ''cp_ratings'') = [] \<longrightarrow>
        map fst (log (snd (run ev PutCpRatings req s fs))) =
          [Select ''cp_ratings'' ''*''
             [Eq ''platform'' (js_string (get_prop (params req) ''platform''))] None True,
           Insert ''cp_ratings''
             (json_object [(''platform'', get_prop (params req) ''platform''), (''rating'', Some v)])]
        \<and> tables (st (snd (run ev PutCpRatings req s fs))) ''cp_ratings'' =
            tables s ''cp_ratings'' @
              [new_row ev s (json_object [(''platform'', get_prop (params req) ''platform''),
                                          (''rating'', Some v)])]
        \<and> fst (run ev PutCpRatings req s fs) =
            ok (JObj (new_row ev s (json_object [(''platform'', get_prop (params req) ''platform''),
                                                 (''rating'', Some v)]))))
   \<and> (get_prop (body req) ''rating'' = Some v \<and> all_served fs
      \<and> filter (matches ev (Eq ''platform'' (js_string (get_prop (params req) ''platform''))))
           (tables s ''cp_ratings'') = [r] \<longrightarrow>
        map fst (log (snd (run ev PutCpRatings req s fs))) =
          [Select ''cp_ratings'' ''*''
             [Eq ''platform'' (js_string (get_prop (params req) ''platform''))] None True,
           Update ''cp_ratings'' [(''rating'', v), (''updated_at'', JStr (iso_now ev))]
             [Eq ''platform'' (js_string (get_prop (params req) ''platform''))]]
        \<and> tables (st (snd (run ev PutCpRatings req s fs))) ''cp_ratings'' =
            map (\<lambda>x. if matches ev
                          (Eq ''platform'' (js_string (get_prop (params req) ''platform''))) x
                     then merge x [(''rating'', v), (''updated_at'', JStr (iso_now ev))]
                     else x)
              (tables s ''cp_ratings'')
        \<and> fst (run ev PutCpRatings req s fs) =
            ok (JObj (merge r [(''rating'', v), (''updated_at'', JStr (iso_now ev))]))
        \<and> get_prop (merge r [(''rating'', v), (''updated_at'', JStr (iso_now ev))]) ''rating''
            = Some v
        \<and> get_prop (merge r [(''rating'', v), (''updated_at'', JStr (iso_now ev))]) ''updated_at''
            = Some (JStr (iso_now ev))
        \<and> get_prop (merge r [(''rating'', v), (''updated_at'', JStr (iso_now ev))]) ''platform''
            = get_prop r ''platform'')
   \<and> (one_row_per_platform (tables s ''cp_ratings'') \<and> list_all lookup_served steps \<longrightarrow>
        one_row_per_platform (tables (run_all steps s) ''cp_ratings''))"
proof -
  have fields:
    "get_prop (merge r [(''rating'', v), (''updated_at'', JStr (iso_now ev))]) ''rating'' = Some v"
    "get_prop (merge r [(''rating'', v), (''updated_at'', JStr (iso_now ev))]) ''updated_at''
       = Some (JStr (iso_now ev))"
    "get_prop (merge r [(''rating'', v), (''updated_at'', JStr (iso_now ev))]) ''platform''
       = get_prop r ''platform''"
    by (simp_all add: get_prop_merge) (simp_all add: get_prop_def)
  show ?thesis
    by (simp add: run_def put_cp_rating_inserts put_cp_rating_updates
          run_all_keeps_platforms_unique fields)
qed

section \<open>The claims\<close>

subsection \<open>C1: the rating upsert and a lookup that fails\<close>

text \<open>
  Claim C1, at a sequence of two requests where the code breaks it. The first
  \<^verbatim>\<open>PUT /cp-ratings/leetcode\<close>, rating 1500, on the empty store creates the row of
  leetcode. The second \<^verbatim>\<open>PUT /cp-ratings/leetcode\<close>, rating 1600, has its lookup failed by
  the backend with a statement timeout: the handler reads that as no row, inserts
  \<^verbatim>\<open>{platform, rating}\<close> and answers success with the new row. The table then holds
  two rows for leetcode, where the claim says that the second PUT for a platform never
  creates a duplicate.
\<close>

theorem failed_lookup_inserts_second_row:
  "st (snd (run demo_env PutCpRatings put_leetcode_1500 empty_store [])) = store_with_leetcode
   \<and> one_row_per_platform (tables store_with_leetcode ''cp_ratings'')
   \<and> log (snd (run demo_env PutCpRatings put_leetcode_1600 store_with_leetcode
              [Some statement_timeout])) =
       [(Select ''cp_ratings'' ''*'' [Eq ''platform'' ''leetcode''] None True,
         Inl statement_timeout),
        (Insert ''cp_ratings'' [(''platform'', JStr ''leetcode''), (''rating'', JNum 1600)],
         Inr (JObj [(''platform'', JStr ''leetcode''), (''rating'', JNum 1600),
                    (''id'', JNum 2), (''created_at'', JStr ''2024-01-01T00:00:00+00:00'')]))]
   \<and> fst (run demo_env PutCpRatings put_leetcode_1600 store_with_leetcode
              [Some statement_timeout]) =
       \<lparr>status = 200,
        json = [(''success'', JBool True),
                (''data'', JObj [(''platform'', JStr ''leetcode''), (''rating'', JNum 1600),
                                (''id'', JNum 2),
                                (''created_at'', JStr ''2024-01-01T00:00:00+00:00'')]),
                (''error'', JNull)]\<rparr>
   \<and> tables (run_all [(demo_env, PutCpRatings, put_leetcode_1500, []),
                       (demo_env, PutCpRatings, put_leetcode_1600, [Some statement_timeout])]
               empty_store) ''cp_ratings'' =
       [[(''platform'', JStr ''leetcode''), (''rating'', JNum 1500), (''id'', JNum 1),
         (''created_at'', JStr ''2024-01-01T00:00:00+00:00'')],
        [(''platform'', JStr ''leetcode''), (''rating'', JNum 1600), (''id'', JNum 2),
         (''created_at'', JStr ''2024-01-01T00:00:00+00:00'')]]
   \<and> \<not> one_row_per_platform
         (tables (run_all [(demo_env, PutCpRatings, put_leetcode_1500, []),
                           (demo_env, PutCpRatings, put_leetcode_1600, [Some statement_timeout])]
                   empty_store) ''cp_ratings'')"
proof -
  have first: "st (snd (run demo_env PutCpRatings put_leetcode_1500 empty_store []))
      = store_with_leetcode"
    by (simp add: put_leetcode_1500_def store_with_leetcode_def leetcode_row_def
          put_cp_rating_def eval_simps fun_eq_iff)
  have second: "run demo_env PutCpRatings put_leetcode_1600 store_with_leetcode
        [Some statement_timeout] =
      (\<lparr>status = 200,
        json = [(''success'', JBool True),
                (''data'', JObj [(''platform'', JStr ''leetcode''), (''rating'', JNum 1600),
                                (''id'', JNum 2),
                                (''created_at'', JStr ''2024-01-01T00:00:00+00:00'')]),
                (''error'', JNull)]\<rparr>,
       \<lparr>st = store_with_leetcode
          \<lparr>tables := (tables store_with_leetcode)
             (''cp_ratings'' := [leetcode_row,
                [(''platform'', JStr ''leetcode''), (''rating'', JNum 1600), (''id'', JNum 2),
                 (''created_at'', JStr ''2024-01-01T00:00:00+00:00'')]]),
           next_id := 3\<rparr>,
        pending = [],
        log = [(Select ''cp_ratings'' ''*'' [Eq ''platform'' ''leetcode''] None True,
                Inl statement_timeout),
               (Insert ''cp_ratings'' [(''platform'', JStr ''leetcode''), (''rating'', JNum 1600)],
                Inr (JObj [(''platform'', JStr ''leetcode''), (''rating'', JNum 1600),
                           (''id'', JNum 2),
                           (''created_at'', JStr ''2024-01-01T00:00:00+00:00'')]))]\<rparr>)"
    by (simp add: put_leetcode_1600_def store_with_leetcode_def statement_timeout_def
          put_cp_rating_def eval_simps)
  have before: "one_row_per_platform (tables store_with_leetcode ''cp_ratings'')"
    by (simp add: store_with_leetcode_def leetcode_row_def one_row_per_platform_def
          platform_keys_def List.map_filter_def get_prop_def)
  have after: "tables (run_all [(demo_env, PutCpRatings, put_leetcode_1500, []),
                       (demo_env, PutCpRatings, put_leetcode_1600, [Some statement_timeout])]
               empty_store) ''cp_ratings'' =
       [[(''platform'', JStr ''leetcode''), (''rating'', JNum 1500), (''id'', JNum 1),
         (''created_at'', JStr ''2024-01-01T00:00:00+00:00'')],
        [(''platform'', JStr ''leetcode''), (''rating'', JNum 1600), (''id'', JNum 2),
         (''created_at'', JStr ''2024-01-01T00:00:00+00:00'')]]"
    by (simp add: first second leetcode_row_def)
  have twice: "\<not> one_row_per_platform
       [[(''platform'', JStr ''leetcode''), (''rating'', JNum 1500), (''id'', JNum 1),
         (''created_at'', JStr ''2024-01-01T00:00:00+00:00'')],
        [(''platform'', JStr ''leetcode''), (''rating'', JNum 1600), (''id'', JNum 2),
         (''created_at'', JStr ''2024-01-01T00:00:00+00:00'')]]"
    by (simp add: one_row_per_platform_def platform_keys_def List.map_filter_def get_prop_def)
  from first before show ?thesis
    unfolding after using twice by (simp add: second)
qed

subsection \<open>C2: deleting a habit purges its entries, then the habit\<close>

text \<open>
  Claim C2. \<^verbatim>\<open>DELETE /habits/:id\<close> issues exactly two calls, in this order, whatever the
  backend answers: delete from \<^verbatim>\<open>habit_entries\<close> where \<^verbatim>\<open>habit_id\<close> is the id, then
  delete from \<^verbatim>\<open>habits\<close> where \<^verbatim>\<open>id\<close> is the id. When both calls succeed, the habits
  left are exactly those with another id, the entries left are exactly those of other
  habits (unchanged and in their order), and the answer is success with \<^verbatim>\<open>{id}\<close>.
\<close>

theorem habit_delete_purges_entries_then_habit:
  "map fst (log (snd (run ev DeleteHabits req s fs))) =
     [Delete ''habit_entries'' [Eq ''habit_id'' (js_string (get_prop (params req) ''id''))],
      Delete ''habits'' [Eq ''id'' (js_string (get_prop (params req) ''id''))]]
   \<and> (map snd (log (snd (run ev DeleteHabits req s fs))) = [Inr JNull, Inr JNull] \<longrightarrow>
        tables (st (snd (run ev DeleteHabits req s fs))) ''habits'' =
          filter (\<lambda>r. \<not> matches ev (Eq ''id'' (js_string (get_prop (params req) ''id''))) r)
            (tables s ''habits'')
      \<and> tables (st (snd (run ev DeleteHabits req s fs))) ''habit_entries'' =
          filter (\<lambda>r. \<not> matches ev (Eq ''habit_id'' (js_string (get_prop (params req) ''id''))) r)
            (tables s ''habit_entries'')
      \<and> fst (run ev DeleteHabits req s fs) =
          ok (JObj (json_object [(''id'', get_prop (params req) ''id'')])))"
proof (intro conjI impI)
  show "map fst (log (snd (run ev DeleteHabits req s fs))) =
     [Delete ''habit_entries'' [Eq ''habit_id'' (js_string (get_prop (params req) ''id''))],
      Delete ''habits'' [Eq ''id'' (js_string (get_prop (params req) ''id''))]]"
    by (simp add: run_def delete_habit_log)
next
  assume a: "map snd (log (snd (run ev DeleteHabits req s fs))) = [Inr JNull, Inr JNull]"
  then have b: "map snd (log (snd (delete_habit ev req (start s fs)))) = [Inr JNull, Inr JNull]"
    by (simp add: run_def)
  show "tables (st (snd (run ev DeleteHabits req s fs))) ''habits'' =
          filter (\<lambda>r. \<not> matches ev (Eq ''id'' (js_string (get_prop (params req) ''id''))) r)
            (tables s ''habits'')"
    by (simp add: run_def delete_habit_both_served [OF b])
  show "tables (st (snd (run ev DeleteHabits req s fs))) ''habit_entries'' =
          filter (\<lambda>r. \<not> matches ev (Eq ''habit_id'' (js_string (get_prop (params req) ''id''))) r)
            (tables s ''habit_entries'')"
    by (simp add: run_def delete_habit_both_served [OF b])
  show "fst (run ev DeleteHabits req s fs) =
          ok (JObj (json_object [(''id'', get_prop (params req) ''id'')]))"
    by (simp add: run_def delete_habit_both_served [OF b])
qed

text \<open>
  Deleting habit \<^verbatim>\<open>h1\<close> from two habits and three entries leaves habit \<^verbatim>\<open>h2\<close> and its
  one entry.
\<close>

theorem habit_delete_purges_entries_then_habit_witness:
  "map snd (log (snd (run demo_env DeleteHabits habit_h1 store_with_habits [])))
     = [Inr JNull, Inr JNull]
   \<and> map fst (log (snd (run demo_env DeleteHabits habit_h1 store_with_habits []))) =
       [Delete ''habit_entries'' [Eq ''habit_id'' ''h1''], Delete ''habits'' [Eq ''id'' ''h1'']]
   \<and> tables (st (snd (run demo_env DeleteHabits habit_h1 store_with_habits []))) ''habits'' =
       [[(''id'', JStr ''h2''), (''name'', JStr ''run'')]]
   \<and> tables (st (snd (run demo_env DeleteHabits habit_h1 store_with_habits []))) ''habit_entries'' =
       [[(''id'', JNum 2), (''habit_id'', JStr ''h2'')]]
   \<and> fst (run demo_env DeleteHabits habit_h1 store_with_habits []) =
       ok (JObj [(''id'', JStr ''h1'')])"
proof -
  let ?R = "run demo_env DeleteHabits habit_h1 store_with_habits []"
  have both: "map snd (log (snd ?R)) = [Inr JNull, Inr JNull]"
    by (simp add: habit_h1_def delete_habit_def eval_simps)
  from habit_delete_purges_entries_then_habit [of demo_env habit_h1 store_with_habits "[]"] both
  have "map fst (log (snd ?R)) =
          [Delete ''habit_entries'' [Eq ''habit_id'' (js_string (get_prop (params habit_h1) ''id''))],
           Delete ''habits'' [Eq ''id'' (js_string (get_prop (params habit_h1) ''id''))]]"
    and "tables (st (snd ?R)) ''habits'' =
          filter (\<lambda>r. \<not> matches demo_env (Eq ''id'' (js_string (get_prop (params habit_h1) ''id''))) r)
            (tables store_with_habits ''habits'')"
    and "tables (st (snd ?R)) ''habit_entries'' =
          filter (\<lambda>r. \<not> matches demo_env
                         (Eq ''habit_id'' (js_string (get_prop (params habit_h1) ''id''))) r)
            (tables store_with_habits ''habit_entries'')"
    and "fst ?R = ok (JObj (json_object [(''id'', get_prop (params habit_h1) ''id'')]))"
    by blast+
  then have "map fst (log (snd ?R)) =
       [Delete ''habit_entries'' [Eq ''habit_id'' ''h1''], Delete ''habits'' [Eq ''id'' ''h1'']]"
    and "tables (st (snd ?R)) ''habits'' = [[(''id'', JStr ''h2''), (''name'', JStr ''run'')]]"
    and "tables (st (snd ?R)) ''habit_entries'' = [[(''id'', JNum 2), (''habit_id'', JStr ''h2'')]]"
    and "fst ?R = ok (JObj [(''id'', JStr ''h1'')])"
    by (simp_all add: habit_h1_def store_with_habits_def get_prop_def)
  with both show ?thesis by blast
qed

subsection \<open>C3: failures of the backend\<close>

text \<open>
  Claim C3, amended. For every endpoint, every store and every way the backend may fail:
  \<^item> a call that fails, other than the unchecked calls and other than a lookup that
    translates the no-row code \<^verbatim>\<open>PGRST116\<close>, is answered with HTTP 500 and the envelope
    \<^verbatim>\<open>{success: false, data: null, error: <the backend's message>}\<close>, and it is the last
    call of the request;
  \<^item> the status is 400 exactly when the route's guard turns the request away; the
    envelope then has success false, data null and a message, no call is issued and the
    store is untouched;
  \<^item> no handler issues the same call twice, so nothing is retried.
  About the unchecked calls the statement is silent.
\<close>

theorem inspected_store_failures_become_500:
  "(i < length (log (snd (run ev e req s fs)))
      \<and> snd (log (snd (run ev e req s fs)) ! i) = Inl err
      \<and> \<not> unchecked_call e i
      \<and> \<not> (no_row_lookup e i \<and> code err = ''PGRST116'')
    \<longrightarrow> fst (run ev e req s fs) =
          \<lparr>status = 500,
           json = [(''success'', JBool False), (''data'', JNull), (''error'', JStr (message err))]\<rparr>
        \<and> Suc i = length (log (snd (run ev e req s fs))))
   \<and> (status (fst (run ev e req s fs)) = 400) = rejects e req
   \<and> (rejects e req \<longrightarrow>
        (\<exists>msg. fst (run ev e req s fs) =
                 \<lparr>status = 400,
                  json = [(''success'', JBool False), (''data'', JNull), (''error'', JStr msg)]\<rparr>)
        \<and> log (snd (run ev e req s fs)) = []
        \<and> st (snd (run ev e req s fs)) = s)
   \<and> distinct (map fst (log (snd (run ev e req s fs))))"
  using discipline_every_endpoint [of e req s ev fs]
  unfolding error_discipline_def server_error_def bad_request_def by blast

text \<open>
  \<^verbatim>\<open>GET /todos?profile=piyush\<close> whose select times out answers 500 with the timeout's
  message; \<^verbatim>\<open>GET /todos\<close> without a profile answers 400 and issues no call.
\<close>

theorem inspected_store_failures_become_500_witness:
  "0 < length (log (snd (run demo_env GetTodos todos_of_piyush empty_store [Some statement_timeout])))
   \<and> snd (log (snd (run demo_env GetTodos todos_of_piyush empty_store [Some statement_timeout])) ! 0)
       = Inl statement_timeout
   \<and> \<not> unchecked_call GetTodos 0
   \<and> \<not> (no_row_lookup GetTodos 0 \<and> code statement_timeout = ''PGRST116'')
   \<and> fst (run demo_env GetTodos todos_of_piyush empty_store [Some statement_timeout]) =
       \<lparr>status = 500,
        json = [(''success'', JBool False), (''data'', JNull),
                (''error'', JStr (message statement_timeout))]\<rparr>
   \<and> rejects GetTodos no_query
   \<and> status (fst (run demo_env GetTodos no_query empty_store [])) = 400
   \<and> log (snd (run demo_env GetTodos no_query empty_store [])) = []"
proof -
  let ?R = "run demo_env GetTodos todos_of_piyush empty_store [Some statement_timeout]"
  let ?Q = "run demo_env GetTodos no_query empty_store []"
  have issued: "0 < length (log (snd ?R))"
    and failed: "snd (log (snd ?R) ! 0) = Inl statement_timeout"
    by (simp_all add: todos_of_piyush_def list_by_profile_def eval_simps)
  have checked: "\<not> unchecked_call GetTodos 0"
    and plain: "\<not> (no_row_lookup GetTodos 0 \<and> code statement_timeout = ''PGRST116'')"
    by (simp_all add: unchecked_call_def no_row_lookup_def)
  have rejected: "rejects GetTodos no_query"
    by (simp add: rejects_def profile_routes_def no_query_def get_prop_def)
  from inspected_store_failures_become_500
         [where i = 0 and ev = demo_env and e = GetTodos and req = todos_of_piyush
            and s = empty_store and fs = "[Some statement_timeout]" and err = statement_timeout]
       issued failed checked plain
  have answer: "fst ?R = \<lparr>status = 500,
        json = [(''success'', JBool False), (''data'', JNull),
                (''error'', JStr (message statement_timeout))]\<rparr>"
    by blast
  from inspected_store_failures_become_500
         [where i = 0 and ev = demo_env and e = GetTodos and req = no_query
            and s = empty_store and fs = "[]" and err = statement_timeout] rejected
  have turned_away: "status (fst ?Q) = 400" and untouched: "log (snd ?Q) = []"
    by blast+
  from issued failed checked plain answer rejected turned_away untouched show ?thesis
    by blast
qed

text \<open>
  Claim C3 as stated, for every call of every endpoint, fails twice over. The first delete
  of \<^verbatim>\<open>DELETE /habits/:id\<close> times out and the answer is still success with the id,
  the entries of the habit being where they were; the
  lookup of \<^verbatim>\<open>GET /daily-logs/piyush/:date\<close> comes back with the store's no-row error and
  the answer is success with null.
\<close>

theorem store_failures_answered_with_success:
  "snd (log (snd (run demo_env DeleteHabits habit_h1 store_with_habits [Some statement_timeout])) ! 0)
     = Inl statement_timeout
   \<and> fst (run demo_env DeleteHabits habit_h1 store_with_habits [Some statement_timeout]) =
       \<lparr>status = 200,
        json = [(''success'', JBool True), (''data'', JObj [(''id'', JStr ''h1'')]),
                (''error'', JNull)]\<rparr>
   \<and> tables (st (snd (run demo_env DeleteHabits habit_h1 store_with_habits
         [Some statement_timeout]))) ''habit_entries'' = tables store_with_habits ''habit_entries''
   \<and> snd (log (snd (run demo_env GetDailyLogPiyushByDate log_of_may_first empty_store [])) ! 0)
       = Inl no_rows
   \<and> fst (run demo_env GetDailyLogPiyushByDate log_of_may_first empty_store []) =
       \<lparr>status = 200,
        json = [(''success'', JBool True), (''data'', JNull), (''error'', JNull)]\<rparr>"
  by (simp add: habit_h1_def log_of_may_first_def statement_timeout_def store_with_habits_def
        delete_habit_def eval_simps)

subsection \<open>C4: a daily log that is not there\<close>

text \<open>
  Claim C4. For \<^verbatim>\<open>GET /daily-logs/piyush/:date\<close> and \<^verbatim>\<open>GET /daily-logs/shruti/:date\<close>:
  with no row for the date the answer is HTTP 200 with
  \<^verbatim>\<open>{success: true, data: null, error: null}\<close>; with one row for the date the answer is
  that row; and when the backend fails the lookup with a code other than \<^verbatim>\<open>PGRST116\<close>
  the answer is the 500 failure with the backend's message.
\<close>

theorem daily_log_without_row_is_null_success:
  assumes "(e, t) \<in> set by_date_routes"
  shows "(all_served fs
          \<and> filter (matches ev (Eq ''date'' (js_string (get_prop (params req) ''date''))))
               (tables s t) = []
          \<longrightarrow> fst (run ev e req s fs) =
                \<lparr>status = 200,
                 json = [(''success'', JBool True), (''data'', JNull), (''error'', JNull)]\<rparr>)
       \<and> (all_served fs
          \<and> filter (matches ev (Eq ''date'' (js_string (get_prop (params req) ''date''))))
               (tables s t) = [r]
          \<longrightarrow> fst (run ev e req s fs) = ok (JObj r))
       \<and> (fs = Some err # rest \<and> code err \<noteq> ''PGRST116''
          \<longrightarrow> fst (run ev e req s fs) = server_error (message err))"
  using by_date_routes_handle [OF assms]
  by (auto simp: run_def get_by_date_served get_by_date_failed ok_def)

text \<open>
  The log of 1 May: absent from the empty store, present in a store that holds it, and
  looked up while the backend times out.
\<close>

theorem daily_log_without_row_is_null_success_witness:
  "(GetDailyLogPiyushByDate, ''daily_logs_piyush'') \<in> set by_date_routes
   \<and> all_served []
   \<and> filter (matches demo_env (Eq ''date'' (js_string (get_prop (params log_of_may_first) ''date''))))
        (tables empty_store ''daily_logs_piyush'') = []
   \<and> fst (run demo_env GetDailyLogPiyushByDate log_of_may_first empty_store []) =
       \<lparr>status = 200, json = [(''success'', JBool True), (''data'', JNull), (''error'', JNull)]\<rparr>
   \<and> filter (matches demo_env (Eq ''date'' (js_string (get_prop (params log_of_may_first) ''date''))))
        (tables store_with_daily_log ''daily_logs_piyush'') = [may_first_row]
   \<and> fst (run demo_env GetDailyLogPiyushByDate log_of_may_first store_with_daily_log []) =
       ok (JObj may_first_row)
   \<and> code statement_timeout \<noteq> ''PGRST116''
   \<and> fst (run demo_env GetDailyLogPiyushByDate log_of_may_first store_with_daily_log
             [Some statement_timeout]) =
       server_error (message statement_timeout)"
proof -
  have route: "(GetDailyLogPiyushByDate, ''daily_logs_piyush'') \<in> set by_date_routes"
    by (simp add: by_date_routes_def)
  have served: "all_served []"
    by (simp add: all_served_def)
  have absent: "filter (matches demo_env
        (Eq ''date'' (js_string (get_prop (params log_of_may_first) ''date''))))
        (tables empty_store ''daily_logs_piyush'') = []"
    by (simp add: empty_store_def)
  have present: "filter (matches demo_env
        (Eq ''date'' (js_string (get_prop (params log_of_may_first) ''date''))))
        (tables store_with_daily_log ''daily_logs_piyush'') = [may_first_row]"
    by (simp add: store_with_daily_log_def may_first_row_def log_of_may_first_def get_prop_def)
  have other: "code statement_timeout \<noteq> ''PGRST116''"
    by (simp add: statement_timeout_def)
  from daily_log_without_row_is_null_success
         [OF route, of "[]" demo_env log_of_may_first empty_store] served absent
  have a: "fst (run demo_env GetDailyLogPiyushByDate log_of_may_first empty_store []) =
       \<lparr>status = 200, json = [(''success'', JBool True), (''data'', JNull), (''error'', JNull)]\<rparr>"
    by blast
  from daily_log_without_row_is_null_success
         [OF route, of "[]" demo_env log_of_may_first store_with_daily_log may_first_row]
       served present
  have b: "fst (run demo_env GetDailyLogPiyushByDate log_of_may_first store_with_daily_log []) =
       ok (JObj may_first_row)"
    by blast
  from daily_log_without_row_is_null_success
         [OF route, of "[Some statement_timeout]" demo_env log_of_may_first store_with_daily_log
            may_first_row statement_timeout "[]"] other
  have c: "fst (run demo_env GetDailyLogPiyushByDate log_of_may_first store_with_daily_log
             [Some statement_timeout]) = server_error (message statement_timeout)"
    by blast
  from route served absent present other a b c show ?thesis by blast
qed

subsection \<open>C5: create validates, then inserts once\<close>

text \<open>
  Claim C5, amended. For every create endpoint with its table, its required fields, its
  optional fields and its defaulted fields:
  \<^item> if every required field of the body is truthy, the handler issues exactly one call,
    an insert into the table. The inserted object has each field at most once: a required
    or optional field is as the body has it (absent when the body leaves it out), a
    defaulted field is the body's value when that is truthy and the default otherwise,
    and there is no other field. If moreover the store serves the insert, the answer is
    success with the new row, which is the inserted object followed by the \<^verbatim>\<open>id\<close> and
    \<^verbatim>\<open>created_at\<close> the store assigns, and that row is appended to the table;
  \<^item> if some required field is omitted or falsy (null, false, 0 or the empty string), the
    answer is a 400 validation failure, no call is issued and the store is untouched.
\<close>

theorem create_needs_truthy_required_fields:
  assumes "(e, t, required) \<in> set create_routes"
    and "(e, optional, defaulted) \<in> set create_optionals"
  shows "(list_all (\<lambda>f. truthy (get_prop (body req) f)) required \<longrightarrow>
            (\<exists>payload.
               map fst (log (snd (run ev e req s fs))) = [Insert t payload]
               \<and> distinct (map fst payload)
               \<and> (\<forall>k. get_prop payload k =
                      (if k \<in> set required \<union> set optional then get_prop (body req) k
                       else case map_of defaulted k of
                              None \<Rightarrow> None
                            | Some d \<Rightarrow> if truthy (get_prop (body req) k)
                                        then get_prop (body req) k else Some d))
               \<and> (all_served fs \<longrightarrow>
                     log (snd (run ev e req s fs)) =
                       [(Insert t payload,
                         Inr (JObj (payload @ [(''id'', JNum (int (next_id s))),
                                               (''created_at'', JStr (db_now ev))])))]
                     \<and> fst (run ev e req s fs) =
                         \<lparr>status = 200,
                          json = [(''success'', JBool True),
                                  (''data'', JObj (payload @ [(''id'', JNum (int (next_id s))),
                                                            (''created_at'', JStr (db_now ev))])),
                                  (''error'', JNull)]\<rparr>
                     \<and> tables (st (snd (run ev e req s fs))) t =
                         tables s t @ [payload @ [(''id'', JNum (int (next_id s))),
                                                  (''created_at'', JStr (db_now ev))]])))
       \<and> (\<not> list_all (\<lambda>f. truthy (get_prop (body req) f)) required \<longrightarrow>
            (\<exists>msg. fst (run ev e req s fs) =
                     \<lparr>status = 400,
                      json = [(''success'', JBool False), (''data'', JNull),
                              (''error'', JStr msg)]\<rparr>)
            \<and> log (snd (run ev e req s fs)) = []
            \<and> st (snd (run ev e req s fs)) = s)"
  using create_routes_contract [OF assms, of ev req s fs]
  unfolding create_contract_def .

text \<open>
  \<^verbatim>\<open>POST /projects\<close> with a description, no notes and a field the route does not know:
  the description is in the new row, the unknown field is not. \<^verbatim>\<open>POST /todos\<close> with an
  empty profile is rejected before any call.
\<close>

theorem create_needs_truthy_required_fields_witness:
  "(PostProjects, ''projects'', [''profile'', ''project_name'']) \<in> set create_routes
   \<and> (PostProjects, [''description'', ''notes''], []) \<in> set create_optionals
   \<and> list_all (\<lambda>f. truthy (get_prop (body project_with_description) f))
         [''profile'', ''project_name'']
   \<and> all_served []
   \<and> log (snd (run demo_env PostProjects project_with_description empty_store [])) =
       [(Insert ''projects''
           [(''profile'', JStr ''piyush''), (''project_name'', JStr ''tracker''),
            (''description'', JStr ''api'')],
         Inr (JObj [(''profile'', JStr ''piyush''), (''project_name'', JStr ''tracker''),
                    (''description'', JStr ''api''), (''id'', JNum 1),
                    (''created_at'', JStr ''2024-01-01T00:00:00+00:00'')]))]
   \<and> fst (run demo_env PostProjects project_with_description empty_store []) =
       \<lparr>status = 200,
        json = [(''success'', JBool True),
                (''data'', JObj [(''profile'', JStr ''piyush''),
                                (''project_name'', JStr ''tracker''),
                                (''description'', JStr ''api''), (''id'', JNum 1),
                                (''created_at'', JStr ''2024-01-01T00:00:00+00:00'')]),
                (''error'', JNull)]\<rparr>
   \<and> tables (st (snd (run demo_env PostProjects project_with_description empty_store [])))
         ''projects'' =
       [[(''profile'', JStr ''piyush''), (''project_name'', JStr ''tracker''),
         (''description'', JStr ''api''), (''id'', JNum 1),
         (''created_at'', JStr ''2024-01-01T00:00:00+00:00'')]]
   \<and> (PostTodos, ''todos'', [''profile'', ''content'']) \<in> set create_routes
   \<and> (PostTodos, [], []) \<in> set create_optionals
   \<and> \<not> list_all (\<lambda>f. truthy (get_prop (body todo_empty_profile) f)) [''profile'', ''content'']
   \<and> fst (run demo_env PostTodos todo_empty_profile empty_store []) =
       \<lparr>status = 400,
        json = [(''success'', JBool False), (''data'', JNull),
                (''error'', JStr ''Profile and content are required'')]\<rparr>
   \<and> log (snd (run demo_env PostTodos todo_empty_profile empty_store [])) = []
   \<and> st (snd (run demo_env PostTodos todo_empty_profile empty_store [])) = empty_store"
  using create_needs_truthy_required_fields
          [where e = PostProjects and t = "''projects''"
             and required = "[''profile'', ''project_name'']"
             and optional = "[''description'', ''notes'']" and defaulted = "[]"
             and req = project_with_description and fs = "[]" and ev = demo_env
             and s = empty_store]
        create_needs_truthy_required_fields
          [where e = PostTodos and t = "''todos''" and required = "[''profile'', ''content'']"
             and optional = "[]" and defaulted = "[]"
             and req = todo_empty_profile and fs = "[]" and ev = demo_env and s = empty_store]
  by (simp add: create_routes_def create_optionals_def project_with_description_def
        todo_empty_profile_def eval_simps)

text \<open>
  Claim C5 as stated fails in both halves. A body that has both required fields of
  \<^verbatim>\<open>POST /todos\<close>, the profile being the empty string, is answered with 400 and no
  insert. A body of \<^verbatim>\<open>POST /courses\<close> with \<^verbatim>\<open>total_content: 0\<close> is answered with a row
  whose \<^verbatim>\<open>total_content\<close> is 100, not the supplied 0.
\<close>

theorem present_fields_rejected_or_replaced:
  "get_prop (body todo_empty_profile) ''profile'' = Some (JStr [])
   \<and> get_prop (body todo_empty_profile) ''content'' = Some (JStr ''x'')
   \<and> fst (run demo_env PostTodos todo_empty_profile empty_store []) =
       \<lparr>status = 400,
        json = [(''success'', JBool False), (''data'', JNull),
                (''error'', JStr ''Profile and content are required'')]\<rparr>
   \<and> log (snd (run demo_env PostTodos todo_empty_profile empty_store [])) = []
   \<and> get_prop (body sql_course_zero_total) ''total_content'' = Some (JNum 0)
   \<and> fst (run demo_env PostCourses sql_course_zero_total empty_store []) =
       \<lparr>status = 200,
        json = [(''success'', JBool True),
                (''data'', JObj [(''profile'', JStr ''shruti''), (''course_name'', JStr ''sql''),
                                (''platform'', JStr ''coursera''),
                                (''total_content'', JNum 100),
                                (''completed_content'', JNum 7), (''id'', JNum 1),
                                (''created_at'', JStr ''2024-01-01T00:00:00+00:00'')]),
                (''error'', JNull)]\<rparr>"
  by (simp add: todo_empty_profile_def sql_course_zero_total_def eval_simps)

subsection \<open>C6: defaults of optional fields\<close>

text \<open>
  Claim C6, amended. Once validation has passed, \<^verbatim>\<open>POST /habit-entries\<close> inserts
  \<^verbatim>\<open>completed\<close>, \<^verbatim>\<open>POST /habits\<close> inserts \<^verbatim>\<open>sort_order\<close> and \<^verbatim>\<open>POST /courses\<close>
  inserts \<^verbatim>\<open>total_content\<close> and \<^verbatim>\<open>completed_content\<close> as follows: the default
  (false, 0, 100 and 0) when the caller omitted the field, the supplied value when it is
  truthy, and the default again when the supplied value is falsy.
\<close>

theorem create_defaults_replace_falsy_values:
  "(truthy (get_prop (body req) ''habit_id'') \<and> truthy (get_prop (body req) ''date'') \<longrightarrow>
      inserts_with_default (map fst (log (snd (run ev PostHabitEntries req s fs))))
        ''habit_entries'' ''completed'' (get_prop (body req) ''completed'') (JBool False))
   \<and> (truthy (get_prop (body req) ''profile'') \<and> truthy (get_prop (body req) ''name'') \<longrightarrow>
      inserts_with_default (map fst (log (snd (run ev PostHabits req s fs))))
        ''habits'' ''sort_order'' (get_prop (body req) ''sort_order'') (JNum 0))
   \<and> (truthy (get_prop (body req) ''profile'') \<and> truthy (get_prop (body req) ''course_name'')
        \<and> truthy (get_prop (body req) ''platform'') \<longrightarrow>
      inserts_with_default (map fst (log (snd (run ev PostCourses req s fs))))
        ''courses'' ''total_content'' (get_prop (body req) ''total_content'') (JNum 100)
      \<and> inserts_with_default (map fst (log (snd (run ev PostCourses req s fs))))
        ''courses'' ''completed_content'' (get_prop (body req) ''completed_content'') (JNum 0))"
  by (auto simp: run_def create_log pick_def pick_or_def get_prop_json_object
           intro!: inserts_with_defaultI)

text \<open>
  One body for the three routes: \<^verbatim>\<open>completed\<close> and \<^verbatim>\<open>completed_content\<close> are
  omitted, \<^verbatim>\<open>sort_order\<close> is 3 and \<^verbatim>\<open>total_content\<close> is 0.
\<close>

theorem create_defaults_replace_falsy_values_witness:
  "truthy (get_prop (body mixed_body) ''habit_id'') \<and> truthy (get_prop (body mixed_body) ''date'')
   \<and> truthy (get_prop (body mixed_body) ''profile'') \<and> truthy (get_prop (body mixed_body) ''name'')
   \<and> truthy (get_prop (body mixed_body) ''course_name'')
   \<and> truthy (get_prop (body mixed_body) ''platform'')
   \<and> get_prop (body mixed_body) ''completed'' = None
   \<and> truthy (get_prop (body mixed_body) ''sort_order'')
   \<and> \<not> truthy (get_prop (body mixed_body) ''total_content'')
   \<and> get_prop (body mixed_body) ''completed_content'' = None
   \<and> map fst (log (snd (run demo_env PostHabitEntries mixed_body empty_store []))) =
       [Insert ''habit_entries''
          [(''habit_id'', JStr ''h1''), (''date'', JStr ''2024-05-01''),
           (''completed'', JBool False)]]
   \<and> map fst (log (snd (run demo_env PostHabits mixed_body empty_store []))) =
       [Insert ''habits''
          [(''profile'', JStr ''piyush''), (''name'', JStr ''read''), (''sort_order'', JNum 3)]]
   \<and> map fst (log (snd (run demo_env PostCourses mixed_body empty_store []))) =
       [Insert ''courses''
          [(''profile'', JStr ''piyush''), (''course_name'', JStr ''dsa''),
           (''platform'', JStr ''udemy''), (''total_content'', JNum 100),
           (''completed_content'', JNum 0)]]"
  using create_defaults_replace_falsy_values [of mixed_body demo_env empty_store "[]"]
  by (simp add: mixed_body_def inserts_with_default_def eval_simps)

text \<open>
  Claim C6 as stated, that a supplied value is what is inserted, fails:
  \<^verbatim>\<open>POST /courses\<close> with \<^verbatim>\<open>total_content: 0\<close> inserts 100.
\<close>

theorem supplied_zero_total_is_replaced:
  "get_prop (body course_zero_total) ''total_content'' = Some (JNum 0)
   \<and> map fst (log (snd (run demo_env PostCourses course_zero_total empty_store []))) =
       [Insert ''courses''
          [(''profile'', JStr ''piyush''), (''course_name'', JStr ''dsa''),
           (''platform'', JStr ''udemy''), (''total_content'', JNum 100),
           (''completed_content'', JNum 0)]]"
  by (simp add: course_zero_total_def eval_simps)

subsection \<open>C7: update forwards the body as it is\<close>

text \<open>
  Claim C7. For every \<^verbatim>\<open>PUT /<resource>/:id\<close> endpoint and every body: the handler
  issues exactly one call, an update of the resource's table with the body itself as the
  field set, filtered on the id; nothing is validated, added, removed or renamed. When the
  store serves the call and one row has that id, the answer is that row with each field of
  the body set to the body's value and every other field as it was, and the other rows of
  the table are unchanged.
\<close>

theorem update_forwards_body_verbatim:
  assumes "(e, t) \<in> set update_routes"
  shows "map fst (log (snd (run ev e req s fs))) =
           [Update t (body req) [Eq ''id'' (js_string (get_prop (params req) ''id''))]]
         \<and> (all_served fs
              \<and> filter (matches ev (Eq ''id'' (js_string (get_prop (params req) ''id''))))
                   (tables s t) = [r]
            \<longrightarrow> fst (run ev e req s fs) = ok (JObj (merge r (body req)))
              \<and> (\<forall>k. get_prop (merge r (body req)) k =
                       (case get_prop (body req) k of None \<Rightarrow> get_prop r k | Some v \<Rightarrow> Some v))
              \<and> tables (st (snd (run ev e req s fs))) t =
                  map (\<lambda>x. if matches ev (Eq ''id'' (js_string (get_prop (params req) ''id''))) x
                           then merge x (body req) else x) (tables s t))"
  using update_routes_handle [OF assms]
  by (simp add: run_def update_by_id_log update_by_id_served get_prop_merge)

text \<open>
  \<^verbatim>\<open>PUT /todos/7\<close> with \<^verbatim>\<open>{content: "y", done: true}\<close>: the body is forwarded as it is,
  a field the row never had included.
\<close>

theorem update_forwards_body_verbatim_witness:
  "(PutTodos, ''todos'') \<in> set update_routes
   \<and> all_served []
   \<and> filter (matches demo_env (Eq ''id'' (js_string (get_prop (params edit_todo_7) ''id''))))
        (tables store_with_todo ''todos'') = [todo_row]
   \<and> map fst (log (snd (run demo_env PutTodos edit_todo_7 store_with_todo []))) =
       [Update ''todos'' [(''content'', JStr ''y''), (''done'', JBool True)] [Eq ''id'' ''7'']]
   \<and> fst (run demo_env PutTodos edit_todo_7 store_with_todo []) =
       ok (JObj [(''id'', JNum 7), (''profile'', JStr ''piyush''), (''content'', JStr ''y''),
                 (''created_at'', JStr ''2024-01-01T00:00:00+00:00''), (''done'', JBool True)])"
proof -
  have route: "(PutTodos, ''todos'') \<in> set update_routes"
    by (simp add: update_routes_def)
  have served: "all_served []"
    by (simp add: all_served_def)
  have hit: "filter (matches demo_env (Eq ''id'' (js_string (get_prop (params edit_todo_7) ''id''))))
        (tables store_with_todo ''todos'') = [todo_row]"
    by (simp add: store_with_todo_def todo_row_def edit_todo_7_def get_prop_def show_simps)
  from update_forwards_body_verbatim
         [OF route, of demo_env edit_todo_7 store_with_todo "[]" todo_row] served hit
  have "map fst (log (snd (run demo_env PutTodos edit_todo_7 store_with_todo []))) =
          [Update ''todos'' (body edit_todo_7)
             [Eq ''id'' (js_string (get_prop (params edit_todo_7) ''id''))]]"
    and "fst (run demo_env PutTodos edit_todo_7 store_with_todo []) =
          ok (JObj (merge todo_row (body edit_todo_7)))"
    by blast+
  then have "map fst (log (snd (run demo_env PutTodos edit_todo_7 store_with_todo []))) =
       [Update ''todos'' [(''content'', JStr ''y''), (''done'', JBool True)] [Eq ''id'' ''7'']]"
    and "fst (run demo_env PutTodos edit_todo_7 store_with_todo []) =
       ok (JObj [(''id'', JNum 7), (''profile'', JStr ''piyush''), (''content'', JStr ''y''),
                 (''created_at'', JStr ''2024-01-01T00:00:00+00:00''), (''done'', JBool True)])"
    by (simp_all add: edit_todo_7_def todo_row_def merge_def get_prop_def)
  with route served hit show ?thesis by blast
qed

subsection \<open>C8: deleting an id that has no row\<close>

text \<open>
  Claim C8. For every \<^verbatim>\<open>DELETE /<resource>/:id\<close> endpoint: as long as the store reports
  no error, the answer is success with \<^verbatim>\<open>{id}\<close>, whatever the table holds. In
  particular, when no row has the id, the table is left as it was and the answer is the
  same as for an id that exists.
\<close>

theorem delete_of_missing_id_succeeds:
  assumes "(e, t) \<in> set delete_routes" and "all_served fs"
  shows "fst (run ev e req s fs) =
           ok (JObj (json_object [(''id'', get_prop (params req) ''id'')]))
         \<and> (filter (matches ev (Eq ''id'' (js_string (get_prop (params req) ''id''))))
               (tables s t) = []
              \<longrightarrow> tables (st (snd (run ev e req s fs))) t = tables s t)"
proof -
  have m: "matches_all ev [Eq ''id'' (js_string (get_prop (params req) ''id''))]
             = matches ev (Eq ''id'' (js_string (get_prop (params req) ''id'')))"
    by (rule ext) (simp add: matches_all_def)
  from delete_routes_handle [OF assms(1)]
  consider "handle ev e = delete_habit ev" "t = ''habits''" | "handle ev e = delete_by_id ev t"
    by blast
  then show ?thesis
  proof cases
    case 1
    then show ?thesis
      by (simp add: run_def delete_habit_served [OF assms(2)] m filter_empty_conv filter_id_conv)
  next
    case 2
    then show ?thesis
      by (simp add: run_def delete_by_id_served [OF assms(2)] m filter_empty_conv filter_id_conv)
  qed
qed

text \<open>
  \<^verbatim>\<open>DELETE /todos/42\<close> on the empty store answers success with the id.
\<close>

theorem delete_of_missing_id_succeeds_witness:
  "(DeleteTodos, ''todos'') \<in> set delete_routes \<and> all_served []
   \<and> filter (matches demo_env (Eq ''id'' ''42'')) (tables empty_store ''todos'') = []
   \<and> fst (run demo_env DeleteTodos \<lparr>params = [(''id'', JStr ''42'')], query = [], body = []\<rparr>
            empty_store []) = ok (JObj [(''id'', JStr ''42'')])
   \<and> tables (st (snd (run demo_env DeleteTodos
            \<lparr>params = [(''id'', JStr ''42'')], query = [], body = []\<rparr> empty_store []))) ''todos''
       = []"
  using delete_of_missing_id_succeeds [of DeleteTodos "''todos''" "[]" demo_env
          "\<lparr>params = [(''id'', JStr ''42'')], query = [], body = []\<rparr>" empty_store]
  by (simp add: delete_routes_def all_served_def empty_store_def get_prop_def)

subsection \<open>C9: upload paths\<close>

text \<open>
  Claim C9. With the required fields truthy and the payload decoded to \<open>bytes\<close>,
  \<^verbatim>\<open>POST /upload/certificate\<close> uploads the bytes to the bucket \<^verbatim>\<open>certificates\<close> at
  \<open>certificate_path\<close> of the profile, the current millisecond and the file name, and
  \<^verbatim>\<open>POST /upload/case-competition-doc\<close> uploads them to the bucket \<^verbatim>\<open>documents\<close> at
  \<open>case_doc_path\<close>; each meets \<open>upload_contract\<close>: overwriting is disallowed, a collision
  comes back as an error and changes nothing, and a success carries the public URL and
  the path. Two paths for the same file name at distinct milliseconds are distinct, and so
  are their public URLs when the object store gives distinct paths distinct URLs.
\<close>

theorem uploads_are_timestamped_and_never_overwrite:
  "(truthy (get_prop (body req) ''fileName'') \<and> truthy (get_prop (body req) ''fileBase64'')
      \<and> truthy (get_prop (body req) ''profile'')
      \<and> buffer_from ev (get_prop (body req) ''fileBase64'') = Inr bytes \<longrightarrow>
        upload_contract ev ''certificates''
          (certificate_path (get_prop (body req) ''profile'') (date_now ev)
             (get_prop (body req) ''fileName''))
          bytes s fs (run ev UploadCertificate req s fs))
   \<and> (truthy (get_prop (body req) ''fileName'') \<and> truthy (get_prop (body req) ''fileBase64'')
      \<and> buffer_from ev (get_prop (body req) ''fileBase64'') = Inr bytes \<longrightarrow>
        upload_contract ev ''documents''
          (case_doc_path (date_now ev) (get_prop (body req) ''fileName''))
          bytes s fs (run ev UploadCaseCompetitionDoc req s fs))
   \<and> (t1 \<noteq> t2 \<longrightarrow>
        certificate_path p1 t1 f \<noteq> certificate_path p2 t2 f
        \<and> case_doc_path t1 f \<noteq> case_doc_path t2 f
        \<and> (inj (public_url ev b) \<longrightarrow>
             public_url ev b (certificate_path p1 t1 f) \<noteq> public_url ev b (certificate_path p2 t2 f)
             \<and> public_url ev b (case_doc_path t1 f) \<noteq> public_url ev b (case_doc_path t2 f)))"
proof (intro conjI impI)
  assume a: "truthy (get_prop (body req) ''fileName'') \<and> truthy (get_prop (body req) ''fileBase64'')
      \<and> truthy (get_prop (body req) ''profile'')
      \<and> buffer_from ev (get_prop (body req) ''fileBase64'') = Inr bytes"
  show "upload_contract ev ''certificates''
          (certificate_path (get_prop (body req) ''profile'') (date_now ev)
             (get_prop (body req) ''fileName''))
          bytes s fs (run ev UploadCertificate req s fs)"
    by (rule upload_meets_contract)
       (use a in \<open>simp add: run_def upload_certificate_def certificate_path_def Let_def
             split: prod.splits sum.splits\<close>)
next
  assume a: "truthy (get_prop (body req) ''fileName'') \<and> truthy (get_prop (body req) ''fileBase64'')
      \<and> buffer_from ev (get_prop (body req) ''fileBase64'') = Inr bytes"
  show "upload_contract ev ''documents''
          (case_doc_path (date_now ev) (get_prop (body req) ''fileName''))
          bytes s fs (run ev UploadCaseCompetitionDoc req s fs)"
    by (rule upload_meets_contract)
       (use a in \<open>simp add: run_def upload_case_competition_doc_def case_doc_path_def Let_def
             split: prod.splits sum.splits\<close>)
next
  assume t: "t1 \<noteq> t2"
  then show c: "certificate_path p1 t1 f \<noteq> certificate_path p2 t2 f"
    using certificate_path_inj by blast
  from t show d: "case_doc_path t1 f \<noteq> case_doc_path t2 f"
    using case_doc_path_inj by blast
  assume i: "inj (public_url ev b)"
  from i c show "public_url ev b (certificate_path p1 t1 f) \<noteq> public_url ev b (certificate_path p2 t2 f)"
    by (auto dest: injD)
  from i d show "public_url ev b (case_doc_path t1 f) \<noteq> public_url ev b (case_doc_path t2 f)"
    by (auto dest: injD)
qed

text \<open>
  The upload of \<^verbatim>\<open>cv.pdf\<close> for \<^verbatim>\<open>piyush\<close> at millisecond 1700000000000: stored on a
  free path, refused on an occupied one, and a millisecond later on another path.
\<close>

theorem uploads_are_timestamped_and_never_overwrite_witness:
  "truthy (get_prop (body certificate_upload) ''fileName'')
   \<and> truthy (get_prop (body certificate_upload) ''fileBase64'')
   \<and> truthy (get_prop (body certificate_upload) ''profile'')
   \<and> buffer_from demo_env (get_prop (body certificate_upload) ''fileBase64'') = Inr [81, 81, 61, 61]
   \<and> all_served []
   \<and> ''piyush/certificates/1700000000000-cv.pdf'' \<notin> fst ` set (buckets empty_store ''certificates'')
   \<and> fst (run demo_env UploadCertificate certificate_upload empty_store []) =
       ok (JObj [(''file_url'',
                  JStr ''https://x/certificates/piyush/certificates/1700000000000-cv.pdf''),
                 (''path'', JStr ''piyush/certificates/1700000000000-cv.pdf'')])
   \<and> ''piyush/certificates/1700000000000-cv.pdf''
        \<in> fst ` set (buckets store_with_certificate ''certificates'')
   \<and> status (fst (run demo_env UploadCertificate certificate_upload store_with_certificate [])) = 500
   \<and> buckets (st (snd (run demo_env UploadCertificate certificate_upload store_with_certificate [])))
       = buckets store_with_certificate
   \<and> fst (run demo_env UploadCaseCompetitionDoc certificate_upload empty_store []) =
       ok (JObj [(''file_url'', JStr ''https://x/documents/case-competitions/1700000000000-cv.pdf''),
                 (''path'', JStr ''case-competitions/1700000000000-cv.pdf'')])
   \<and> (1700000000000 :: nat) \<noteq> 1700000000001
   \<and> inj (public_url demo_env ''certificates'')
   \<and> public_url demo_env ''certificates''
         (certificate_path (Some (JStr ''piyush'')) 1700000000000 (Some (JStr ''cv.pdf'')))
       \<noteq> public_url demo_env ''certificates''
         (certificate_path (Some (JStr ''piyush'')) 1700000000001 (Some (JStr ''cv.pdf'')))"
  using uploads_are_timestamped_and_never_overwrite
          [of certificate_upload demo_env "[81, 81, 61, 61]" empty_store "[]"
              1700000000000 1700000000001 "Some (JStr ''piyush'')" "Some (JStr ''cv.pdf'')"
              "Some (JStr ''piyush'')" "''certificates''"]
        uploads_are_timestamped_and_never_overwrite
          [of certificate_upload demo_env "[81, 81, 61, 61]" store_with_certificate "[]"
              1700000000000 1700000000001 "Some (JStr ''piyush'')" "Some (JStr ''cv.pdf'')"
              "Some (JStr ''piyush'')" "''certificates''"]
        demo_url_inj [of "''certificates''"]
  by (simp add: upload_contract_def sample_paths certificate_upload_def store_with_certificate_def
        get_prop_def all_served_def empty_store_def demo_env_def ok_def server_error_def)

subsection \<open>C10: reading the progress row creates it\<close>

text \<open>
  Claim C10. \<^verbatim>\<open>GET /a2z-progress\<close> on an empty table, the store serving its calls, looks
  the row up, inserts a row with the six counters at 0 and answers with that new row, which
  is then the table's only row. And whenever the answer is a success, whatever the store
  held and however the backend failed, the table holds at least one row afterwards.
\<close>

theorem a2z_get_creates_the_missing_row:
  "(all_served fs \<and> tables s ''a2z_progress'' = [] \<longrightarrow>
      map fst (log (snd (run ev GetA2zProgress req s fs))) =
        [Select ''a2z_progress'' ''*'' [] None True, Insert ''a2z_progress'' zero_counters]
      \<and> fst (run ev GetA2zProgress req s fs) = ok (JObj (new_row ev s zero_counters))
      \<and> tables (st (snd (run ev GetA2zProgress req s fs))) ''a2z_progress'' =
          [new_row ev s zero_counters]
      \<and> list_all (\<lambda>k. get_prop (new_row ev s zero_counters) k = Some (JNum 0))
          [''easy_total'', ''easy_solved'', ''medium_total'', ''medium_solved'',
           ''hard_total'', ''hard_solved''])
   \<and> (get_prop (json (fst (run ev GetA2zProgress req s fs))) ''success'' = Some (JBool True) \<longrightarrow>
        tables (st (snd (run ev GetA2zProgress req s fs))) ''a2z_progress'' \<noteq> [])"
proof (intro conjI impI)
  assume "get_prop (json (fst (run ev GetA2zProgress req s fs))) ''success'' = Some (JBool True)"
  then show "tables (st (snd (run ev GetA2zProgress req s fs))) ''a2z_progress'' \<noteq> []"
    using get_a2z_progress_success_has_row [of ev req "start s fs"] by (simp add: run_def)
qed (simp_all add: run_def get_a2z_progress_empty get_prop_new_row, simp_all add: zero_counters_def get_prop_def)

text \<open>
  The first \<^verbatim>\<open>GET /a2z-progress\<close> on the empty store.
\<close>

theorem a2z_get_creates_the_missing_row_witness:
  "all_served [] \<and> tables empty_store ''a2z_progress'' = []
   \<and> fst (run demo_env GetA2zProgress \<lparr>params = [], query = [], body = []\<rparr> empty_store []) =
       ok (JObj [(''easy_total'', JNum 0), (''easy_solved'', JNum 0),
                 (''medium_total'', JNum 0), (''medium_solved'', JNum 0),
                 (''hard_total'', JNum 0), (''hard_solved'', JNum 0),
                 (''id'', JNum 1), (''created_at'', JStr ''2024-01-01T00:00:00+00:00'')])
   \<and> get_prop (json (fst (run demo_env GetA2zProgress
         \<lparr>params = [], query = [], body = []\<rparr> empty_store []))) ''success'' = Some (JBool True)
   \<and> tables (st (snd (run demo_env GetA2zProgress
         \<lparr>params = [], query = [], body = []\<rparr> empty_store []))) ''a2z_progress'' \<noteq> []"
  using a2z_get_creates_the_missing_row
          [of "[]" empty_store demo_env "\<lparr>params = [], query = [], body = []\<rparr>"]
  by (simp add: get_a2z_progress_def zero_counters_def eval_simps)

end
